theory Spec2Isabelle
  imports Complex_Main
begin

section \<open>Configuration schema (schemas/config.ts)\<close>

text \<open>
  The configuration is a value of three sections. The user-provided input
  (\<open>ConfigInputSchema\<close>) has every section and every field optional; an
  optional field \<open>f?: T\<close> is a \<open>T option\<close>, \<open>None\<close> standing for a key that is
  absent or \<open>undefined\<close>. The resolved configuration (\<open>ConfigSchema\<close>)
  keeps as options only the fields declared with \<open>Schema.optional\<close>.
\<close>

datatype EsTarget = es2020 | es2021 | es2022 | es2023 | es2024

record Entries =
  main :: string
  pre :: "string option"
  post :: "string option"

record BuildOptions =
  minify :: bool
  target :: EsTarget
  sourceMap :: bool
  externals :: "string list"
  quiet :: bool

record ValidationOptions =
  requireActionYml :: bool
  maxBundleSize :: "string option"
  strict :: "bool option"

record Config =
  entries :: Entries
  build_options :: BuildOptions
  validation :: ValidationOptions

text \<open>
  The input sections. \<open>EntriesInput\<close> is also the type
  \<open>{ main?: string; pre?: string; post?: string }\<close> of the second argument of
  \<open>detectEntries\<close>.
\<close>

record EntriesInput =
  main_in :: "string option"
  pre_in :: "string option"
  post_in :: "string option"

record BuildOptionsInput =
  minify_in :: "bool option"
  target_in :: "EsTarget option"
  sourceMap_in :: "bool option"
  externals_in :: "string list option"
  quiet_in :: "bool option"

record ValidationOptionsInput =
  requireActionYml_in :: "bool option"
  maxBundleSize_in :: "string option"
  strict_in :: "bool option"

record ConfigInput =
  entries_in :: "EntriesInput option"
  build_in :: "BuildOptionsInput option"
  validation_in :: "ValidationOptionsInput option"

text \<open>The JavaScript operator \<open>a ?? b\<close>: \<open>b\<close> only when \<open>a\<close> is null or undefined.\<close>

definition nullish :: "'a option \<Rightarrow> 'a \<Rightarrow> 'a" where
  "nullish a b = (case a of Some v \<Rightarrow> v | None \<Rightarrow> b)"

text \<open>
  Decoding a well-typed section with \<open>EntriesSchema\<close>, \<open>BuildOptionsSchema\<close> and
  \<open>ValidationOptionsSchema\<close>: a field declared
  \<open>Schema.optionalWith(T, { default: () => d })\<close> takes \<open>d\<close> when it is absent or
  undefined, a field declared \<open>Schema.optional(T)\<close> is passed through.
\<close>

definition EntriesSchema :: "EntriesInput \<Rightarrow> Entries" where
  "EntriesSchema e =
     \<lparr> main = nullish (main_in e) ''src/main.ts'',
       pre = pre_in e,
       post = post_in e \<rparr>"

definition BuildOptionsSchema :: "BuildOptionsInput \<Rightarrow> BuildOptions" where
  "BuildOptionsSchema b =
     \<lparr> minify = nullish (minify_in b) True,
       target = nullish (target_in b) es2022,
       sourceMap = nullish (sourceMap_in b) False,
       externals = nullish (externals_in b) [],
       quiet = nullish (quiet_in b) False \<rparr>"

definition ValidationOptionsSchema :: "ValidationOptionsInput \<Rightarrow> ValidationOptions" where
  "ValidationOptionsSchema v =
     \<lparr> requireActionYml = nullish (requireActionYml_in v) True,
       maxBundleSize = maxBundleSize_in v,
       strict = strict_in v \<rparr>"

text \<open>The empty object \<open>{}\<close> of each section.\<close>

definition no_entries :: EntriesInput where
  "no_entries = \<lparr> main_in = None, pre_in = None, post_in = None \<rparr>"

definition no_build :: BuildOptionsInput where
  "no_build = \<lparr> minify_in = None, target_in = None, sourceMap_in = None,
                externals_in = None, quiet_in = None \<rparr>"

definition no_validation :: ValidationOptionsInput where
  "no_validation = \<lparr> requireActionYml_in = None, maxBundleSize_in = None, strict_in = None \<rparr>"

definition no_config :: ConfigInput where
  "no_config = \<lparr> entries_in = None, build_in = None, validation_in = None \<rparr>"

text \<open>
  \<open>defineConfig\<close>: each section is \<open>config.section ?? {}\<close>, then the whole is
  decoded with \<open>ConfigSchema\<close>.
\<close>

definition defineConfig :: "ConfigInput \<Rightarrow> Config" where
  "defineConfig config =
     \<lparr> entries = EntriesSchema (nullish (entries_in config) no_entries),
       build_options = BuildOptionsSchema (nullish (build_in config) no_build),
       validation = ValidationOptionsSchema (nullish (validation_in config) no_validation) \<rparr>"

section \<open>Tagged failures (errors.ts)\<close>

text \<open>
  The failure channel of the services. \<open>ActionYmlSyntaxError\<close> also declares
  optional \<open>line\<close> and \<open>column\<close> fields, which no code path of the services sets.
\<close>

record SchemaErrorItem =
  se_path :: string
  se_message :: string

datatype failure =
    ConfigNotFound string string
  | ConfigInvalid string "string list"
  | ConfigLoadFailed string string
  | MainEntryMissing string string
  | ActionYmlMissing string
  | ActionYmlSyntaxError string string
  | ActionYmlSchemaError string "SchemaErrorItem list"
  | ValidationFailed nat nat string
  | BundleFailed string string
  | WriteError string string
  | CleanError string string

text \<open>
  A value thrown by a Node.js or library call: an \<open>Error\<close> object with its
  message, or any other value with its \<open>String(...)\<close> rendering.
\<close>

datatype thrown = Error string | NonError string

text \<open>\<open>error instanceof Error ? error.message : String(error)\<close>\<close>

fun cause_string :: "thrown \<Rightarrow> string" where
  "cause_string (Error m) = m"
| "cause_string (NonError s) = s"

section \<open>Strict mode (services/validation-live.ts)\<close>

text \<open>
  \<open>isCI\<close> reads the two environment variables from \<open>process.env\<close>, a map from
  names to values.
\<close>

definition isCI :: "(string \<rightharpoonup> string) \<Rightarrow> bool" where
  "isCI env \<longleftrightarrow>
     env ''CI'' = Some ''true'' \<or> env ''CI'' = Some ''1'' \<or> env ''GITHUB_ACTIONS'' = Some ''true''"

definition resolveStrict :: "(string \<rightharpoonup> string) \<Rightarrow> bool option \<Rightarrow> bool" where
  "resolveStrict env configStrict = nullish configStrict (isCI env)"

text \<open>
  The options of \<open>validate\<close> and the strict flag it computes on its second line:
  \<open>resolveStrict(options.strict ?? config.validation.strict)\<close>.
\<close>

record ValidateOptions =
  vo_cwd :: "string option"
  vo_strict :: "bool option"

definition first_defined :: "'a option \<Rightarrow> 'a option \<Rightarrow> 'a option" where
  "first_defined a b = (case a of Some v \<Rightarrow> Some v | None \<Rightarrow> b)"

definition validate_strict :: "(string \<rightharpoonup> string) \<Rightarrow> Config \<Rightarrow> ValidateOptions \<Rightarrow> bool" where
  "validate_strict env config options =
     resolveStrict env (first_defined (vo_strict options) (strict (validation config)))"

section \<open>The Node.js platform\<close>

text \<open>
  The services reach the file system, the path library, the YAML parser, the
  schema formatter, the clock and the bundler through calls whose code is not
  part of the repository. They are the fields of a record that every service
  function takes as its first argument. \<open>'fs\<close> is the state of the file system;
  a call that can change it returns the state it leaves behind together with
  the value it threw, if any.
\<close>

text \<open>
  The values the YAML parser returns: \<open>null\<close>, booleans, numbers, strings,
  arrays, and objects as the list of their own properties in insertion order.
\<close>

datatype js_number = Finite rat | NaN | PosInfinity | NegInfinity

datatype js =
    JNull
  | JBool bool
  | JNum js_number
  | JStr string
  | JArr "js list"
  | JObj "(string \<times> js) list"

text \<open>
  The Effect schemas that \<open>schemas/action-yml.ts\<close> is built from, and the issue
  that decoding reports.
\<close>

datatype schema =
    SString
  | SBoolean
  | SLiteral "string list"
  | SOptional schema
  | SRecord schema
  | SStruct "(string \<times> schema) list"

datatype parse_issue =
    Type_issue schema js
  | Missing_issue
  | Pointer string parse_issue

text \<open>
  The options and the result of ncc. An asset is kept as its name and its
  source as text (the code turns a \<open>Buffer\<close> source into a string before it
  writes it).
\<close>

record NccOptions =
  ncc_minify :: "bool option"
  ncc_sourceMap :: "bool option"
  ncc_target :: "string option"
  ncc_quiet :: "bool option"
  ncc_externals :: "string list option"

record NccResult =
  ncc_code :: string
  map_src :: "string option"
  assets :: "(string \<times> string) list option"

record 'fs platform =
  existsSync :: "'fs \<Rightarrow> string \<Rightarrow> bool"
  readFileSync :: "'fs \<Rightarrow> string \<Rightarrow> thrown + string"
  mkdirSync :: "'fs \<Rightarrow> string \<Rightarrow> thrown option \<times> 'fs"
  writeFileSync :: "'fs \<Rightarrow> string \<Rightarrow> string \<Rightarrow> thrown option \<times> 'fs"
  rmSync :: "'fs \<Rightarrow> string \<Rightarrow> thrown option \<times> 'fs"
  path_resolve :: "string \<Rightarrow> string \<Rightarrow> string"
  parseYaml :: "string \<Rightarrow> thrown + js"
  formatErrorSync :: "parse_issue \<Rightarrow> string"
  ncc :: "'fs \<Rightarrow> string \<Rightarrow> NccOptions \<Rightarrow> thrown + NccResult"
  byteLength :: "string \<Rightarrow> nat"
  date_now :: "nat \<Rightarrow> int"

text \<open>
  The process: its file system, \<open>process.env\<close>, \<open>process.cwd()\<close>, the number of
  readings of \<open>Date.now()\<close> taken so far (the \<open>n\<close>-th reading is \<open>date_now n\<close>),
  and the entry paths handed to the bundler so far, oldest first.
\<close>

record 'fs world =
  fs :: 'fs
  process_env :: "string \<rightharpoonup> string"
  process_cwd :: string
  clock_reads :: nat
  ncc_calls :: "string list"

section \<open>Entry point detection (services/config-live.ts)\<close>

datatype EntryType = Main | Pre | Post

fun type_name :: "EntryType \<Rightarrow> string" where
  "type_name Main = ''main''"
| "type_name Pre = ''pre''"
| "type_name Post = ''post''"

record DetectedEntry =
  entry_type :: EntryType
  entry_path :: string
  entry_output :: string

record DetectEntriesResult =
  de_success :: bool
  de_entries :: "DetectedEntry list"

fun DEFAULT_ENTRIES :: "EntryType \<Rightarrow> string" where
  "DEFAULT_ENTRIES Main = ''src/main.ts''"
| "DEFAULT_ENTRIES Pre = ''src/pre.ts''"
| "DEFAULT_ENTRIES Post = ''src/post.ts''"

definition detectOptionalEntry ::
  "'fs platform \<Rightarrow> 'fs \<Rightarrow> string \<Rightarrow> EntryType \<Rightarrow> string option \<Rightarrow> DetectedEntry option" where
  "detectOptionalEntry N f cwd type explicitPath =
     (let defaultPath = DEFAULT_ENTRIES type;
          entryPath = nullish explicitPath defaultPath;
          absolutePath = path_resolve N cwd entryPath
      in if existsSync N f absolutePath
         then Some \<lparr> entry_type = type, entry_path = absolutePath,
                     entry_output = ''dist/'' @ type_name type @ ''.js'' \<rparr>
         else None)"

text \<open>\<open>if (e) detected.push(e)\<close>\<close>

definition push_if :: "'a list \<Rightarrow> 'a option \<Rightarrow> 'a list" where
  "push_if detected e = (case e of Some x \<Rightarrow> detected @ [x] | None \<Rightarrow> detected)"

text \<open>
  \<open>ConfigService.resolve\<close> and \<open>ConfigService.detectEntries\<close>. \<open>entries?.main\<close> is
  the field of the optional argument when both are there.
\<close>

definition resolve :: "ConfigInput \<Rightarrow> failure + Config" where
  "resolve input = Inr (defineConfig input)"

definition detectEntries ::
  "'fs platform \<Rightarrow> 'fs \<Rightarrow> string \<Rightarrow> EntriesInput option \<Rightarrow> failure + DetectEntriesResult" where
  "detectEntries N f cwd entries_arg =
     (let mainPath = nullish (Option.bind entries_arg main_in) (DEFAULT_ENTRIES Main);
          absoluteMainPath = path_resolve N cwd mainPath
      in if \<not> existsSync N f absoluteMainPath
         then Inl (MainEntryMissing mainPath cwd)
         else
           let detected = [\<lparr> entry_type = Main, entry_path = absoluteMainPath,
                              entry_output = ''dist/main.js'' \<rparr>];
               preEntry = detectOptionalEntry N f cwd Pre (Option.bind entries_arg pre_in);
               detected = push_if detected preEntry;
               postEntry = detectOptionalEntry N f cwd Post (Option.bind entries_arg post_in);
               detected = push_if detected postEntry
           in Inr \<lparr> de_success = True, de_entries = detected \<rparr>)"

text \<open>
  Both orchestrators build the argument of \<open>detectEntries\<close> the same way:
  \<open>main\<close> always, \<open>pre\<close> and \<open>post\<close> only when truthy (a non-empty string).
\<close>

definition truthy_string :: "string option \<Rightarrow> string option" where
  "truthy_string s = (case s of Some v \<Rightarrow> (if v = [] then None else Some v) | None \<Rightarrow> None)"

definition entriesConfig :: "Config \<Rightarrow> EntriesInput" where
  "entriesConfig config =
     \<lparr> main_in = Some (main (entries config)),
       pre_in = truthy_string (pre (entries config)),
       post_in = truthy_string (post (entries config)) \<rparr>"

section \<open>The manifest schema (schemas/action-yml.ts)\<close>

definition BrandingIcon :: schema where
  "BrandingIcon = SLiteral [
  ''activity'', ''airplay'', ''alert-circle'', ''alert-octagon'', ''alert-triangle'',
     ''align-center'', ''align-justify'', ''align-left'', ''align-right'', ''anchor'',
     ''aperture'', ''archive'', ''arrow-down-circle'', ''arrow-down-left'',
     ''arrow-down-right'', ''arrow-down'', ''arrow-left-circle'', ''arrow-left'',
     ''arrow-right-circle'', ''arrow-right'', ''arrow-up-circle'', ''arrow-up-left'',
     ''arrow-up-right'', ''arrow-up'', ''at-sign'', ''award'', ''bar-chart-2'',
     ''bar-chart'', ''battery-charging'', ''battery'', ''bell-off'', ''bell'',
     ''bluetooth'', ''bold'', ''book-open'', ''book'', ''bookmark'', ''box'',
     ''briefcase'', ''calendar'', ''camera-off'', ''camera'', ''cast'', ''check-circle'',
     ''check-square'', ''check'', ''chevron-down'', ''chevron-left'', ''chevron-right'',
     ''chevron-up'', ''chevrons-down'', ''chevrons-left'', ''chevrons-right'',
     ''chevrons-up'', ''circle'', ''clipboard'', ''clock'', ''cloud-drizzle'',
     ''cloud-lightning'', ''cloud-off'', ''cloud-rain'', ''cloud-snow'', ''cloud'',
     ''code'', ''command'', ''compass'', ''copy'', ''corner-down-left'',
     ''corner-down-right'', ''corner-left-down'', ''corner-left-up'',
     ''corner-right-down'', ''corner-right-up'', ''corner-up-left'', ''corner-up-right'',
     ''cpu'', ''credit-card'', ''crop'', ''crosshair'', ''database'', ''delete'', ''disc'',
     ''dollar-sign'', ''download-cloud'', ''download'', ''droplet'', ''edit-2'',
     ''edit-3'', ''edit'', ''external-link'', ''eye-off'', ''eye'', ''fast-forward'',
     ''feather'', ''file-minus'', ''file-plus'', ''file-text'', ''file'', ''film'',
     ''filter'', ''flag'', ''folder-minus'', ''folder-plus'', ''folder'', ''gift'',
     ''git-branch'', ''git-commit'', ''git-merge'', ''git-pull-request'', ''globe'',
     ''grid'', ''hard-drive'', ''hash'', ''headphones'', ''heart'', ''help-circle'',
     ''home'', ''image'', ''inbox'', ''info'', ''italic'', ''layers'', ''layout'',
     ''life-buoy'', ''link-2'', ''link'', ''list'', ''loader'', ''lock'', ''log-in'',
     ''log-out'', ''mail'', ''map-pin'', ''map'', ''maximize-2'', ''maximize'', ''menu'',
     ''message-circle'', ''message-square'', ''mic-off'', ''mic'', ''minimize-2'',
     ''minimize'', ''minus-circle'', ''minus-square'', ''minus'', ''monitor'', ''moon'',
     ''more-horizontal'', ''more-vertical'', ''move'', ''music'', ''navigation-2'',
     ''navigation'', ''octagon'', ''package'', ''paperclip'', ''pause-circle'', ''pause'',
     ''percent'', ''phone-call'', ''phone-forwarded'', ''phone-incoming'',
     ''phone-missed'', ''phone-off'', ''phone-outgoing'', ''phone'', ''pie-chart'',
     ''play-circle'', ''play'', ''plus-circle'', ''plus-square'', ''plus'', ''pocket'',
     ''power'', ''printer'', ''radio'', ''refresh-ccw'', ''refresh-cw'', ''repeat'',
     ''rewind'', ''rotate-ccw'', ''rotate-cw'', ''rss'', ''save'', ''scissors'',
     ''search'', ''send'', ''server'', ''settings'', ''share-2'', ''share'',
     ''shield-off'', ''shield'', ''shopping-bag'', ''shopping-cart'', ''shuffle'',
     ''sidebar'', ''skip-back'', ''skip-forward'', ''slash'', ''sliders'', ''smartphone'',
     ''speaker'', ''square'', ''star'', ''stop-circle'', ''sun'', ''sunrise'', ''sunset'',
     ''table'', ''tablet'', ''tag'', ''target'', ''terminal'', ''thermometer'',
     ''thumbs-down'', ''thumbs-up'', ''toggle-left'', ''toggle-right'', ''trash-2'',
     ''trash'', ''trending-down'', ''trending-up'', ''triangle'', ''truck'', ''tv'',
     ''type'', ''umbrella'', ''underline'', ''unlock'', ''upload-cloud'', ''upload'',
     ''user-check'', ''user-minus'', ''user-plus'', ''user-x'', ''user'', ''users'',
     ''video-off'', ''video'', ''voicemail'', ''volume-1'', ''volume-2'', ''volume-x'',
     ''volume'', ''watch'', ''wifi-off'', ''wifi'', ''wind'', ''x-circle'', ''x-square'',
     ''x'', ''zap-off'', ''zap'', ''zoom-in'', ''zoom-out'']"

definition ActionInput :: schema where
  "ActionInput = SStruct [
     (''description'', SString),
     (''required'', SOptional SBoolean),
     (''default'', SOptional SString),
     (''deprecationMessage'', SOptional SString)]"

definition ActionOutput :: schema where
  "ActionOutput = SStruct [(''description'', SString)]"

definition Runs :: schema where
  "Runs = SStruct [
     (''using'', SLiteral [''node24'']),
     (''main'', SString),
     (''pre'', SOptional SString),
     (''pre-if'', SOptional SString),
     (''post'', SOptional SString),
     (''post-if'', SOptional SString)]"

definition BrandingColor :: schema where
  "BrandingColor = SLiteral [''white'', ''black'', ''yellow'', ''blue'', ''green'', ''orange'',
     ''red'', ''purple'', ''gray-dark'']"

definition Branding :: schema where
  "Branding = SStruct [
     (''icon'', SOptional BrandingIcon),
     (''color'', SOptional BrandingColor)]"

definition ActionYml :: schema where
  "ActionYml = SStruct [
     (''name'', SString),
     (''description'', SString),
     (''author'', SOptional SString),
     (''inputs'', SOptional (SRecord ActionInput)),
     (''outputs'', SOptional (SRecord ActionOutput)),
     (''runs'', Runs),
     (''branding'', SOptional Branding)]"

text \<open>
  \<open>Schema.decodeUnknownEither\<close> with its default options, on the schemas above.
  The decoder belongs to the Effect library, not to the repository; this is its
  behaviour on the six schema forms the manifest uses. A string, a boolean and
  a literal accept the values of their type; a struct and a record accept an
  object. The properties of a struct are decoded in the order of their
  declaration and the first issue ends the decoding (the default
  \<open>errors: "first"\<close>); a property that is absent is an issue unless it is
  declared with \<open>Schema.optional\<close>; a property that is not declared is dropped
  from the result (the default \<open>onExcessProperty: "ignore"\<close>). A record decodes
  the value of every key.
\<close>

fun decode :: "schema \<Rightarrow> js \<Rightarrow> parse_issue + js"
  and decode_props :: "(string \<times> schema) list \<Rightarrow> (string \<times> js) list
                        \<Rightarrow> parse_issue + (string \<times> js) list"
  and decode_values :: "schema \<Rightarrow> (string \<times> js) list \<Rightarrow> parse_issue + (string \<times> js) list"
where
  "decode SString v = (case v of JStr s \<Rightarrow> Inr v | _ \<Rightarrow> Inl (Type_issue SString v))"
| "decode SBoolean v = (case v of JBool b \<Rightarrow> Inr v | _ \<Rightarrow> Inl (Type_issue SBoolean v))"
| "decode (SLiteral ls) v =
     (case v of
        JStr s \<Rightarrow> if s \<in> set ls then Inr v else Inl (Type_issue (SLiteral ls) v)
      | _ \<Rightarrow> Inl (Type_issue (SLiteral ls) v))"
| "decode (SOptional s) v = decode s v"
| "decode (SRecord s) v =
     (case v of
        JObj kvs \<Rightarrow>
          (case decode_values s kvs of Inl e \<Rightarrow> Inl e | Inr out \<Rightarrow> Inr (JObj out))
      | _ \<Rightarrow> Inl (Type_issue (SRecord s) v))"
| "decode (SStruct ps) v =
     (case v of
        JObj kvs \<Rightarrow>
          (case decode_props ps kvs of Inl e \<Rightarrow> Inl e | Inr out \<Rightarrow> Inr (JObj out))
      | _ \<Rightarrow> Inl (Type_issue (SStruct ps) v))"
| "decode_props [] kvs = Inr []"
| "decode_props ((name, s) # ps) kvs =
     (case map_of kvs name of
        None \<Rightarrow>
          (case s of
             SOptional _ \<Rightarrow> decode_props ps kvs
           | _ \<Rightarrow> Inl (Pointer name Missing_issue))
      | Some v \<Rightarrow>
          (case decode s v of
             Inl e \<Rightarrow> Inl (Pointer name e)
           | Inr v' \<Rightarrow>
               (case decode_props ps kvs of
                  Inl e \<Rightarrow> Inl e
                | Inr out \<Rightarrow> Inr ((name, v') # out))))"
| "decode_values s [] = Inr []"
| "decode_values s ((k, v) # kvs) =
     (case decode s v of
        Inl e \<Rightarrow> Inl (Pointer k e)
      | Inr v' \<Rightarrow>
          (case decode_values s kvs of
             Inl e \<Rightarrow> Inl e
           | Inr out \<Rightarrow> Inr ((k, v') # out)))"

section \<open>Validation service (services/validation-live.ts)\<close>

text \<open>
  \<open>ValidationErrorItem\<close> and \<open>ValidationWarning\<close> are two names of one shape.
\<close>

record ValidationItem =
  code :: string
  message :: string
  file_path :: "string option"
  suggestion :: "string option"

record ValidationResult =
  valid :: bool
  errors :: "ValidationItem list"
  warnings :: "ValidationItem list"

record ActionYmlResult =
  ay_valid :: bool
  ay_content :: js
  ay_errors :: "ValidationItem list"
  ay_warnings :: "ValidationItem list"

definition makeWarning :: "string \<Rightarrow> string \<Rightarrow> string \<Rightarrow> string option \<Rightarrow> ValidationItem" where
  "makeWarning c m s f = \<lparr> code = c, message = m, file_path = f, suggestion = Some s \<rparr>"

definition formatSchemaErrors ::
  "'fs platform \<Rightarrow> parse_issue \<Rightarrow> string \<Rightarrow> SchemaErrorItem list" where
  "formatSchemaErrors N error filePath =
     [\<lparr> se_path = filePath, se_message = formatErrorSync N error \<rparr>]"

text \<open>JavaScript truthiness, \<open>typeof v === "object"\<close> and the property read \<open>v.k\<close>.\<close>

fun truthy :: "js \<Rightarrow> bool" where
  "truthy JNull = False"
| "truthy (JBool b) = b"
| "truthy (JNum n) = (n \<noteq> Finite 0 \<and> n \<noteq> NaN)"
| "truthy (JStr s) = (s \<noteq> [])"
| "truthy (JArr xs) = True"
| "truthy (JObj kvs) = True"

fun typeof_object :: "js \<Rightarrow> bool" where
  "typeof_object JNull = True"
| "typeof_object (JArr xs) = True"
| "typeof_object (JObj kvs) = True"
| "typeof_object v = False"

fun get_prop :: "js \<Rightarrow> string \<Rightarrow> js option" where
  "get_prop (JObj kvs) k = map_of kvs k"
| "get_prop v k = None"

definition truthy_prop :: "js \<Rightarrow> string \<Rightarrow> bool" where
  "truthy_prop v k = (case get_prop v k of Some x \<Rightarrow> truthy x | None \<Rightarrow> False)"

fun object_entries :: "js \<Rightarrow> (string \<times> js) list" where
  "object_entries (JObj kvs) = kvs"
| "object_entries v = []"

definition readActionYml :: "'fs platform \<Rightarrow> 'fs \<Rightarrow> string \<Rightarrow> failure + js" where
  "readActionYml N f p =
     (if \<not> existsSync N f p then Inl (ActionYmlMissing p)
      else
        case readFileSync N f p of
          Inl err \<Rightarrow> Inl (ActionYmlSyntaxError p ''Failed to read file'')
        | Inr content \<Rightarrow>
            (case parseYaml N content of
               Inl err \<Rightarrow>
                 Inl (ActionYmlSyntaxError p
                        (case err of Error m \<Rightarrow> m | NonError x \<Rightarrow> ''Invalid YAML syntax''))
             | Inr parsed \<Rightarrow>
                 if \<not> truthy parsed \<or> \<not> typeof_object parsed
                 then Inl (ActionYmlSyntaxError p ''action.yml must be an object'')
                 else Inr parsed))"

definition validateSchema :: "'fs platform \<Rightarrow> js \<Rightarrow> string \<Rightarrow> failure + js" where
  "validateSchema N parsed p =
     (case decode ActionYml parsed of
        Inl left \<Rightarrow> Inl (ActionYmlSchemaError p (formatSchemaErrors N left p))
      | Inr right \<Rightarrow> Inr right)"

text \<open>
  \<open>checkRecommendations\<close> reads the raw parsed tree. It iterates twice, over
  \<open>Object.entries\<close> of the \<open>inputs\<close> and \<open>outputs\<close> objects. It is called
  only on a tree that has passed \<open>validateSchema\<close>, where \<open>inputs\<close> and
  \<open>outputs\<close>, when present, are objects whose values are objects; on any other
  value \<open>object_entries\<close> is empty and a property read gives \<open>undefined\<close>.
\<close>

definition quoted :: "string \<Rightarrow> string" where
  "quoted name = [CHR 0x27] @ name @ [CHR 0x27]"

definition branding_warnings :: "js \<Rightarrow> string option \<Rightarrow> ValidationItem list" where
  "branding_warnings content filePath =
     (if \<not> truthy_prop content ''branding''
      then [makeWarning ''ACTION_YML_NO_BRANDING'' ''No branding configuration found''
              ''Add branding.icon and branding.color for better marketplace visibility'' filePath]
      else
        let branding = nullish (get_prop content ''branding'') JNull
        in (if \<not> truthy_prop branding ''icon''
            then [makeWarning ''ACTION_YML_NO_BRANDING_ICON'' ''Branding icon not specified''
                    ''Add branding.icon for better marketplace visibility'' filePath]
            else [])
           @ (if \<not> truthy_prop branding ''color''
              then [makeWarning ''ACTION_YML_NO_BRANDING_COLOR'' ''Branding color not specified''
                      ''Add branding.color for better marketplace visibility'' filePath]
              else []))"

fun input_warnings :: "(string \<times> js) list \<Rightarrow> string option \<Rightarrow> ValidationItem list" where
  "input_warnings [] filePath = []"
| "input_warnings ((name, input) # rest) filePath =
     (if \<not> truthy_prop input ''description''
      then [makeWarning ''ACTION_YML_INPUT_NO_DESCRIPTION''
              (''Input '' @ quoted name @ '' has no description'')
              (''Add a description for the '' @ quoted name @ '' input'') filePath]
      else [])
     @ input_warnings rest filePath"

fun output_warnings :: "(string \<times> js) list \<Rightarrow> string option \<Rightarrow> ValidationItem list" where
  "output_warnings [] filePath = []"
| "output_warnings ((name, out) # rest) filePath =
     (if \<not> truthy_prop out ''description''
      then [makeWarning ''ACTION_YML_OUTPUT_NO_DESCRIPTION''
              (''Output '' @ quoted name @ '' has no description'')
              (''Add a description for the '' @ quoted name @ '' output'') filePath]
      else [])
     @ output_warnings rest filePath"

definition checkRecommendations :: "js \<Rightarrow> string option \<Rightarrow> ValidationItem list" where
  "checkRecommendations content filePath =
     branding_warnings content filePath
     @ (if truthy_prop content ''inputs''
        then input_warnings (object_entries (nullish (get_prop content ''inputs'') JNull)) filePath
        else [])
     @ (if truthy_prop content ''outputs''
        then output_warnings (object_entries (nullish (get_prop content ''outputs'') JNull)) filePath
        else [])"

definition validateActionYml :: "'fs platform \<Rightarrow> 'fs \<Rightarrow> string \<Rightarrow> failure + ActionYmlResult" where
  "validateActionYml N f p =
     (case readActionYml N f p of
        Inl e \<Rightarrow> Inl e
      | Inr parsed \<Rightarrow>
          (case validateSchema N parsed p of
             Inl e \<Rightarrow> Inl e
           | Inr content \<Rightarrow>
               Inr \<lparr> ay_valid = True, ay_content = content, ay_errors = [],
                     ay_warnings = checkRecommendations parsed (Some p) \<rparr>))"

definition checkEntries :: "'fs platform \<Rightarrow> 'fs \<Rightarrow> Config \<Rightarrow> string \<Rightarrow> ValidationItem list" where
  "checkEntries N f config cwd =
     (case detectEntries N f cwd (Some (entriesConfig config)) of
        Inl (MainEntryMissing expectedPath c) \<Rightarrow>
          [\<lparr> code = ''MAIN_ENTRY_MISSING'',
              message = ''Main entry point not found: '' @ expectedPath,
              file_path = Some expectedPath,
              suggestion = Some ''Create src/main.ts or specify a different path in config'' \<rparr>]
      | _ \<Rightarrow> [])"

text \<open>
  \<open>checkActionYml\<close> returns the pair \<open>{ errors, warnings }\<close>. The loop over
  \<open>error.errors\<close> pushes one item for each element.
\<close>

definition checkActionYml ::
  "'fs platform \<Rightarrow> 'fs \<Rightarrow> Config \<Rightarrow> string \<Rightarrow> ValidationItem list \<times> ValidationItem list" where
  "checkActionYml N f config cwd =
     (if \<not> requireActionYml (validation config) then ([], [])
      else
        let actionYmlPath = path_resolve N cwd ''action.yml''
        in case validateActionYml N f actionYmlPath of
             Inl (ActionYmlMissing c) \<Rightarrow>
               ([], [\<lparr> code = ''ACTION_YML_MISSING'', message = ''action.yml not found'',
                        file_path = Some actionYmlPath,
                        suggestion = Some ''Create action.yml to define your action metadata'' \<rparr>])
           | Inl (ActionYmlSyntaxError p m) \<Rightarrow>
               ([\<lparr> code = ''ACTION_YML_SYNTAX_ERROR'', message = m, file_path = Some p,
                    suggestion = None \<rparr>], [])
           | Inl (ActionYmlSchemaError p es) \<Rightarrow>
               (map (\<lambda>schemaError. \<lparr> code = ''ACTION_YML_SCHEMA_ERROR'',
                                       message = se_message schemaError, file_path = Some p,
                                       suggestion = None \<rparr>) es, [])
           | Inl other \<Rightarrow> ([], [])
           | Inr right \<Rightarrow> ([], ay_warnings right))"

definition validate ::
  "'fs platform \<Rightarrow> 'fs world \<Rightarrow> Config \<Rightarrow> ValidateOptions \<Rightarrow> failure + ValidationResult" where
  "validate N w config options =
     (let cwd = nullish (vo_cwd options) (process_cwd w);
          is_strict = validate_strict (process_env w) config options;
          entryErrors = checkEntries N (fs w) config cwd;
          actionYmlResult = checkActionYml N (fs w) config cwd;
          errs = entryErrors @ fst actionYmlResult;
          warns = snd actionYmlResult;
          is_valid = (length errs = 0 \<and> (\<not> is_strict \<or> length warns = 0))
      in if is_strict \<and> length warns > 0 \<and> length errs = 0
         then Inl (ValidationFailed 0 (length warns) ''Warnings treated as errors in strict mode'')
         else Inr \<lparr> valid = is_valid, errors = errs, warnings = warns \<rparr>)"

section \<open>Build service (services/build.ts, services/build-live.ts)\<close>

record BuildRunnerOptions =
  bo_cwd :: "string option"
  bo_clean :: "bool option"

record BundleStats =
  stats_entry :: string
  stats_size :: nat
  stats_duration :: int
  stats_outputPath :: string

record BundleResult =
  success :: bool
  stats :: "BundleStats option"
  bundle_error :: "string option"

record BuildResult =
  build_success :: bool
  build_entries :: "BundleResult list"
  build_duration :: int
  build_error :: "string option"

fun target_name :: "EsTarget \<Rightarrow> string" where
  "target_name es2020 = ''es2020''"
| "target_name es2021 = ''es2021''"
| "target_name es2022 = ''es2022''"
| "target_name es2023 = ''es2023''"
| "target_name es2024 = ''es2024''"

text \<open>
  The wrapper \<open>bundle\<close> around ncc (here \<open>ncc_bundle\<close>): a default for each of five options, then the
  options of the caller spread over them.
\<close>

definition ncc_bundle :: "'fs platform \<Rightarrow> 'fs \<Rightarrow> string \<Rightarrow> NccOptions \<Rightarrow> thrown + NccResult" where
  "ncc_bundle N f entryPath options =
     ncc N f entryPath
       \<lparr> ncc_minify = Some (nullish (ncc_minify options) True),
         ncc_sourceMap = Some (nullish (ncc_sourceMap options) False),
         ncc_target = Some (nullish (ncc_target options) ''es2022''),
         ncc_quiet = Some (nullish (ncc_quiet options) True),
         ncc_externals = Some (nullish (ncc_externals options) []) \<rparr>"

text \<open>\<open>Date.now()\<close> takes the next reading of the clock.\<close>

definition Date_now :: "'fs platform \<Rightarrow> 'fs world \<Rightarrow> int \<times> 'fs world" where
  "Date_now N w = (date_now N (clock_reads w), w\<lparr> clock_reads := Suc (clock_reads w) \<rparr>)"

text \<open>
  \<open>cleanDirectory\<close> and \<open>writeFile\<close> return the failure, if any, and the file
  system they leave.
\<close>

definition cleanDirectory :: "'fs platform \<Rightarrow> 'fs \<Rightarrow> string \<Rightarrow> failure option \<times> 'fs" where
  "cleanDirectory N f dir =
     (if existsSync N f dir
      then (case rmSync N f dir of
              (Some err, f1) \<Rightarrow> (Some (CleanError dir (cause_string err)), f1)
            | (None, f1) \<Rightarrow> (None, f1))
      else (None, f))"

definition writeFile :: "'fs platform \<Rightarrow> 'fs \<Rightarrow> string \<Rightarrow> string \<Rightarrow> failure option \<times> 'fs" where
  "writeFile N f p content =
     (let dir = path_resolve N p ''..''
      in case mkdirSync N f dir of
           (Some err, f1) \<Rightarrow> (Some (WriteError p (cause_string err)), f1)
         | (None, f1) \<Rightarrow>
             (case writeFileSync N f1 p content of
                (Some err, f2) \<Rightarrow> (Some (WriteError p (cause_string err)), f2)
              | (None, f2) \<Rightarrow> (None, f2)))"

text \<open>
  Inside \<open>Effect.gen\<close>, \<open>yield*\<close> on a failed effect ends the generator with that
  failure; \<open>and_then\<close> runs the rest only after a success.
\<close>

definition and_then ::
  "failure option \<times> 'fs \<Rightarrow> ('fs \<Rightarrow> failure option \<times> 'fs) \<Rightarrow> failure option \<times> 'fs" where
  "and_then r k = (case r of (Some e, f) \<Rightarrow> (Some e, f) | (None, f) \<Rightarrow> k f)"

text \<open>The loop of \<open>bundleEntry\<close> over the assets; the first failed write ends it.\<close>

fun write_assets ::
  "'fs platform \<Rightarrow> 'fs \<Rightarrow> string \<Rightarrow> (string \<times> string) list \<Rightarrow> failure option \<times> 'fs" where
  "write_assets N f outputDir [] = (None, f)"
| "write_assets N f outputDir ((assetName, content) # rest) =
     (let assetPath = path_resolve N outputDir assetName
      in and_then (writeFile N f assetPath content) (\<lambda>f1. write_assets N f1 outputDir rest))"

text \<open>
  The writes of \<open>bundleEntry\<close>: the bundle, the source map when the
  configuration asks for it and the bundler produced one, then the assets.
\<close>

definition write_outputs ::
  "'fs platform \<Rightarrow> 'fs \<Rightarrow> Config \<Rightarrow> string \<Rightarrow> NccResult \<Rightarrow> failure option \<times> 'fs" where
  "write_outputs N f config outputPath nccResult =
     and_then (writeFile N f outputPath (ncc_code nccResult)) (\<lambda>f1.
     and_then (if sourceMap (build_options config) \<and> truthy_string (map_src nccResult) \<noteq> None
               then writeFile N f1 (outputPath @ ''.map'') (nullish (map_src nccResult) [])
               else (None, f1)) (\<lambda>f2.
       case assets nccResult of
         Some as \<Rightarrow> write_assets N f2 (path_resolve N outputPath ''..'') as
       | None \<Rightarrow> (None, f2)))"

definition bundleEntry ::
  "'fs platform \<Rightarrow> 'fs world \<Rightarrow> DetectedEntry \<Rightarrow> Config \<Rightarrow> string
     \<Rightarrow> (failure + BundleResult) \<times> 'fs world" where
  "bundleEntry N w entry config cwd =
     (case Date_now N w of (startTime, w1) \<Rightarrow>
      let w2 = w1\<lparr> ncc_calls := ncc_calls w1 @ [entry_path entry] \<rparr>
      in case ncc_bundle N (fs w2) (entry_path entry)
                \<lparr> ncc_minify = Some (minify (build_options config)),
                  ncc_sourceMap = Some (sourceMap (build_options config)),
                  ncc_target = Some (target_name (target (build_options config))),
                  ncc_quiet = Some (quiet (build_options config)),
                  ncc_externals = Some (externals (build_options config)) \<rparr> of
           Inl err \<Rightarrow> (Inl (BundleFailed (entry_path entry) (cause_string err)), w2)
         | Inr nccResult \<Rightarrow>
             let outputPath = path_resolve N cwd (entry_output entry)
             in case write_outputs N (fs w2) config outputPath nccResult of
                  (Some e, f3) \<Rightarrow> (Inl e, w2\<lparr> fs := f3 \<rparr>)
                | (None, f3) \<Rightarrow>
                    (case Date_now N (w2\<lparr> fs := f3 \<rparr>) of (endTime, w3) \<Rightarrow>
                     let duration = endTime - startTime;
                         size = byteLength N (ncc_code nccResult)
                     in (Inr \<lparr> success = True,
                               stats = Some \<lparr> stats_entry = type_name (entry_type entry),
                                              stats_size = size,
                                              stats_duration = duration,
                                              stats_outputPath = entry_output entry \<rparr>,
                               bundle_error = None \<rparr>, w3)))"

text \<open>\<open>result.left.cause\<close>, for the failures that have the field.\<close>

fun cause_of :: "failure \<Rightarrow> string option" where
  "cause_of (BundleFailed e c) = Some c"
| "cause_of (WriteError p c) = Some c"
| "cause_of (CleanError d c) = Some c"
| "cause_of (ConfigLoadFailed p c) = Some c"
| "cause_of other = None"

text \<open>The loop of \<open>build\<close> over the detected entries.\<close>

fun build_loop ::
  "'fs platform \<Rightarrow> 'fs world \<Rightarrow> Config \<Rightarrow> string \<Rightarrow> DetectedEntry list \<Rightarrow> BundleResult list
     \<Rightarrow> BundleResult list \<times> 'fs world" where
  "build_loop N w config cwd [] entryResults = (entryResults, w)"
| "build_loop N w config cwd (entry # rest) entryResults =
     (case bundleEntry N w entry config cwd of
        (Inl left, w1) \<Rightarrow>
          build_loop N w1 config cwd rest
            (entryResults @ [\<lparr> success = False, stats = None, bundle_error = cause_of left \<rparr>])
      | (Inr right, w1) \<Rightarrow> build_loop N w1 config cwd rest (entryResults @ [right]))"

definition module_marker :: string where
  "module_marker = ''{ '' @ [CHR 0x22] @ ''type'' @ [CHR 0x22] @ '': ''
                   @ [CHR 0x22] @ ''module'' @ [CHR 0x22] @ '' }''"

definition build ::
  "'fs platform \<Rightarrow> 'fs world \<Rightarrow> Config \<Rightarrow> BuildRunnerOptions
     \<Rightarrow> (failure + BuildResult) \<times> 'fs world" where
  "build N w config options =
     (let cwd = nullish (bo_cwd options) (process_cwd w);
          shouldClean = nullish (bo_clean options) True
      in case Date_now N w of (startTime, w0) \<Rightarrow>
         (case detectEntries N (fs w0) cwd (Some (entriesConfig config)) of
            Inl e \<Rightarrow> (Inl e, w0)
          | Inr entriesResult \<Rightarrow>
              (case (if shouldClean then cleanDirectory N (fs w0) (path_resolve N cwd ''dist'')
                     else (None, fs w0)) of
                 (Some e, f1) \<Rightarrow> (Inl e, w0\<lparr> fs := f1 \<rparr>)
               | (None, f1) \<Rightarrow>
                   (case build_loop N (w0\<lparr> fs := f1 \<rparr>) config cwd (de_entries entriesResult) [] of
                      (entryResults, w2) \<Rightarrow>
                        (case writeFile N (fs w2) (path_resolve N cwd ''dist/package.json'')
                                module_marker of
                           (Some e, f3) \<Rightarrow> (Inl e, w2\<lparr> fs := f3 \<rparr>)
                         | (None, f3) \<Rightarrow>
                             (case Date_now N (w2\<lparr> fs := f3 \<rparr>) of (endTime, w3) \<Rightarrow>
                              let duration = endTime - startTime;
                                  ok = list_all success entryResults
                              in if \<not> ok
                                 then (Inr \<lparr> build_success = ok, build_entries = entryResults,
                                             build_duration = duration,
                                             build_error = Some ''One or more entries failed to build'' \<rparr>,
                                       w3)
                                 else (Inr \<lparr> build_success = ok, build_entries = entryResults,
                                             build_duration = duration, build_error = None \<rparr>,
                                       w3)))))))"

section \<open>A small platform for concrete runs\<close>

text \<open>
  One instance of the platform, used to run the services on concrete projects.
  The file system is an association list from absolute paths to contents;
  a path exists when it is a file or a prefix of one at a slash;
  \<open>path.resolve\<close> joins with a slash; the parser knows four documents; the
  bundler fails on a source that reads \<open>throw\<close>; one output path and the
  tree under \<open>/ro\<close> are read-only.
\<close>

type_synonym toy_fs = "(string \<times> string) list"

definition manifest_node24 :: js where
  "manifest_node24 = JObj [
     (''name'', JStr ''hello''),
     (''description'', JStr ''Says hello''),
     (''runs'', JObj [(''using'', JStr ''node24''), (''main'', JStr ''dist/main.js'')])]"

definition manifest_node20 :: js where
  "manifest_node20 = JObj [
     (''name'', JStr ''hello''),
     (''description'', JStr ''Says hello''),
     (''runs'', JObj [(''using'', JStr ''node20''), (''main'', JStr ''dist/main.js'')])]"

definition manifest_branded :: js where
  "manifest_branded = JObj [
     (''name'', JStr ''hello''),
     (''description'', JStr ''Says hello''),
     (''runs'', JObj [(''using'', JStr ''node24''), (''main'', JStr ''dist/main.js'')]),
     (''branding'', JObj [(''icon'', JStr ''zap''), (''color'', JStr ''blue'')])]"

definition toy_parseYaml :: "string \<Rightarrow> thrown + js" where
  "toy_parseYaml content =
     (if content = ''node24'' then Inr manifest_node24
      else if content = ''node20'' then Inr manifest_node20
      else if content = ''branded'' then Inr manifest_branded
      else if content = ''{}'' then Inr (JObj [])
      else Inl (Error ''Unexpected token''))"

definition toy_ncc :: "toy_fs \<Rightarrow> string \<Rightarrow> NccOptions \<Rightarrow> thrown + NccResult" where
  "toy_ncc f entryPath options =
     (case map_of f entryPath of
        None \<Rightarrow> Inl (Error ''Cannot find module'')
      | Some source \<Rightarrow>
          if source = ''throw'' then Inl (Error ''Unexpected throw'')
          else Inr \<lparr> ncc_code = source, map_src = None, assets = Some [] \<rparr>)"

definition toy_within :: "string \<Rightarrow> string \<Rightarrow> bool" where
  "toy_within q p \<longleftrightarrow> p = q \<or> take (Suc (length q)) p = q @ ''/''"

definition toy :: "toy_fs platform" where
  "toy =
     \<lparr> existsSync = (\<lambda>f q. list_ex (\<lambda>(p, c). toy_within q p) f),
       readFileSync = (\<lambda>f p. case map_of f p of Some c \<Rightarrow> Inr c | None \<Rightarrow> Inl (Error ''ENOENT'')),
       mkdirSync = (\<lambda>f dir. (None, f)),
       writeFileSync = (\<lambda>f p content.
          if p = ''/w/dist/post.js'' \<or> take 4 p = ''/ro/'' then (Some (Error ''EACCES''), f)
          else (None, (p, content) # f)),
       rmSync = (\<lambda>f dir. (None, filter (\<lambda>(p, c). \<not> toy_within dir p) f)),
       path_resolve = (\<lambda>cwd p. cwd @ ''/'' @ p),
       parseYaml = toy_parseYaml,
       formatErrorSync = (\<lambda>issue. ''schema mismatch''),
       ncc = toy_ncc,
       byteLength = length,
       date_now = int \<rparr>"

definition toy_world :: "toy_fs \<Rightarrow> (string \<rightharpoonup> string) \<Rightarrow> toy_fs world" where
  "toy_world files ev =
     \<lparr> fs = files, process_env = ev, process_cwd = ''/w'', clock_reads = 0, ncc_calls = [] \<rparr>"

definition default_config :: Config where
  "default_config = defineConfig no_config"

text \<open>
  A resolved configuration read as an input again: every field of \<open>Config\<close> is
  a field of \<open>ConfigInput\<close> of the same name.
\<close>

definition Config_as_input :: "Config \<Rightarrow> ConfigInput" where
  "Config_as_input c =
     \<lparr> entries_in = Some \<lparr> main_in = Some (main (entries c)), pre_in = pre (entries c),
                            post_in = post (entries c) \<rparr>,
       build_in = Some \<lparr> minify_in = Some (minify (build_options c)),
                          target_in = Some (target (build_options c)),
                          sourceMap_in = Some (sourceMap (build_options c)),
                          externals_in = Some (externals (build_options c)),
                          quiet_in = Some (quiet (build_options c)) \<rparr>,
       validation_in = Some \<lparr> requireActionYml_in = Some (requireActionYml (validation c)),
                               maxBundleSize_in = maxBundleSize (validation c),
                               strict_in = strict (validation c) \<rparr> \<rparr>"

section \<open>Field-level violations, as the specification counts them\<close>

text \<open>
  The specification speaks of every field-level violation of a manifest: a
  required field that is missing, a value of the wrong type, a literal that is
  not the permitted one. \<open>field_violations\<close> lists the path of each of them,
  going through the whole tree without stopping. It is not part of the code; it
  is the yardstick the list of schema errors is compared with.
\<close>

fun field_violations :: "schema \<Rightarrow> js \<Rightarrow> string list list"
  and prop_violations :: "(string \<times> schema) list \<Rightarrow> (string \<times> js) list \<Rightarrow> string list list"
  and value_violations :: "schema \<Rightarrow> (string \<times> js) list \<Rightarrow> string list list"
where
  "field_violations SString v = (case v of JStr s \<Rightarrow> [] | _ \<Rightarrow> [[]])"
| "field_violations SBoolean v = (case v of JBool b \<Rightarrow> [] | _ \<Rightarrow> [[]])"
| "field_violations (SLiteral ls) v =
     (case v of JStr s \<Rightarrow> if s \<in> set ls then [] else [[]] | _ \<Rightarrow> [[]])"
| "field_violations (SOptional s) v = field_violations s v"
| "field_violations (SRecord s) v =
     (case v of JObj kvs \<Rightarrow> value_violations s kvs | _ \<Rightarrow> [[]])"
| "field_violations (SStruct ps) v =
     (case v of JObj kvs \<Rightarrow> prop_violations ps kvs | _ \<Rightarrow> [[]])"
| "prop_violations [] kvs = []"
| "prop_violations ((name, s) # ps) kvs =
     (case map_of kvs name of
        None \<Rightarrow> (case s of SOptional _ \<Rightarrow> [] | _ \<Rightarrow> [[name]])
      | Some v \<Rightarrow> map ((#) name) (field_violations s v))
     @ prop_violations ps kvs"
| "value_violations s [] = []"
| "value_violations s ((k, v) # kvs) =
     map ((#) k) (field_violations s v) @ value_violations s kvs"

section \<open>The result of one entry\<close>

text \<open>
  What the \<open>BundleResult\<close> of an entry has to be, given the world in which the
  entry is bundled. If the bundler rejects, the result is a failure whose error
  is the message of the rejection. If the bundler resolves and a write of the
  outputs fails, the result is a failure whose error is the cause of that
  \<open>WriteError\<close>. If the bundler resolves and every write succeeds, the result is
  a success without error whose statistics name the role of the entry, the
  byte length of the bundled code and the output path of the entry.
\<close>

definition entry_outcome ::
  "'fs platform \<Rightarrow> 'fs world \<Rightarrow> Config \<Rightarrow> string \<Rightarrow> DetectedEntry \<Rightarrow> BundleResult \<Rightarrow> bool" where
  "entry_outcome N w config cwd e r \<longleftrightarrow>
     (case ncc_bundle N (fs w) (entry_path e)
             \<lparr> ncc_minify = Some (minify (build_options config)),
               ncc_sourceMap = Some (sourceMap (build_options config)),
               ncc_target = Some (target_name (target (build_options config))),
               ncc_quiet = Some (quiet (build_options config)),
               ncc_externals = Some (externals (build_options config)) \<rparr> of
        Inl err \<Rightarrow>
          r = \<lparr> success = False, stats = None, bundle_error = Some (cause_string err) \<rparr>
      | Inr nccResult \<Rightarrow>
          (case write_outputs N (fs w) config (path_resolve N cwd (entry_output e)) nccResult of
             (Some failed, f') \<Rightarrow>
               (case failed of
                  WriteError p c \<Rightarrow>
                    r = \<lparr> success = False, stats = None, bundle_error = Some c \<rparr>
                | _ \<Rightarrow> False)
           | (None, f') \<Rightarrow>
               success r \<and> bundle_error r = None
               \<and> (case stats r of
                     None \<Rightarrow> False
                   | Some s \<Rightarrow>
                       stats_entry s = type_name (entry_type e)
                       \<and> stats_size s = byteLength N (ncc_code nccResult)
                       \<and> stats_outputPath s = entry_output e)))"

text \<open>
  The results of a list of entries, in order: each result is the outcome of its
  entry in the world that bundling the entries before it has left.
\<close>

fun results_follow ::
  "'fs platform \<Rightarrow> 'fs world \<Rightarrow> Config \<Rightarrow> string \<Rightarrow> DetectedEntry list \<Rightarrow> BundleResult list
     \<Rightarrow> bool" where
  "results_follow N w config cwd [] rs = (rs = [])"
| "results_follow N w config cwd (e # es) rs =
     (case rs of
        [] \<Rightarrow> False
      | r # rest \<Rightarrow>
          entry_outcome N w config cwd e r
          \<and> results_follow N (snd (bundleEntry N w e config cwd)) config cwd es rest)"

section \<open>Strict mode: results\<close>

lemmas config_defs = resolve_def defineConfig_def EntriesSchema_def BuildOptionsSchema_def
  ValidationOptionsSchema_def nullish_def no_entries_def no_build_def no_validation_def

lemmas toy_defs = toy_def toy_within_def toy_world_def toy_parseYaml_def toy_ncc_def

lemmas validate_defs = validate_def validate_strict_def resolveStrict_def first_defined_def
  isCI_def checkEntries_def detectEntries_def detectOptionalEntry_def push_if_def
  entriesConfig_def truthy_string_def checkActionYml_def validateActionYml_def
  readActionYml_def validateSchema_def formatSchemaErrors_def checkRecommendations_def
  branding_warnings_def makeWarning_def truthy_prop_def default_config_def no_config_def
  config_defs

lemmas manifest_defs = manifest_node24_def manifest_node20_def manifest_branded_def
  ActionYml_def Runs_def Branding_def BrandingColor_def ActionInput_def ActionOutput_def

text \<open>
  C2. Let the flag of a \<open>validate\<close> call be the first defined value among
  \<open>options.strict\<close>, \<open>config.validation.strict\<close> and the CI detection, which is
  true exactly when \<open>CI\<close> is \<open>"true"\<close> or \<open>"1"\<close> or \<open>GITHUB_ACTIONS\<close> is \<open>"true"\<close>.
  \<open>validate\<close> behaves as this flag says: it fails with \<open>ValidationFailed\<close>
  exactly when the flag is true, there is no error item and there is a warning
  item, and otherwise returns a result whose verdict is computed with the flag.
  With an explicit \<open>false\<close> in the options, or in the configuration when the
  options leave it unset, \<open>validate\<close> returns a result whose verdict depends on
  the error items alone, whatever the environment says.
\<close>

theorem validate_strict_precedence:
  fixes N :: "'fs platform" and w :: "'fs world" and config :: Config and options :: ValidateOptions
  defines "cwd \<equiv> nullish (vo_cwd options) (process_cwd w)"
  defines "errs \<equiv> checkEntries N (fs w) config cwd @ fst (checkActionYml N (fs w) config cwd)"
    and "warns \<equiv> snd (checkActionYml N (fs w) config cwd)"
    and "flag \<equiv>
          (case vo_strict options of
             Some b \<Rightarrow> b
           | None \<Rightarrow>
               (case strict (validation config) of
                  Some b \<Rightarrow> b
                | None \<Rightarrow> (process_env w ''CI'' = Some ''true'' \<or> process_env w ''CI'' = Some ''1''
                            \<or> process_env w ''GITHUB_ACTIONS'' = Some ''true'')))"
  shows "validate N w config options =
           (if flag \<and> errs = [] \<and> warns \<noteq> []
            then Inl (ValidationFailed 0 (length warns) ''Warnings treated as errors in strict mode'')
            else Inr \<lparr> valid = (errs = [] \<and> (\<not> flag \<or> warns = [])),
                       errors = errs, warnings = warns \<rparr>)
     \<and> validate_strict (process_env w) config options = flag
     \<and> (vo_strict options = Some False
          \<or> (vo_strict options = None \<and> strict (validation config) = Some False) \<longrightarrow>
          validate N w config options
            = Inr \<lparr> valid = (errs = []), errors = errs, warnings = warns \<rparr>)"
proof -
  have f: "validate_strict (process_env w) config options = flag"
    unfolding flag_def
    by (simp add: validate_strict_def resolveStrict_def first_defined_def nullish_def isCI_def
        split: option.splits)
  have v: "validate N w config options =
           (if flag \<and> errs = [] \<and> warns \<noteq> []
            then Inl (ValidationFailed 0 (length warns) ''Warnings treated as errors in strict mode'')
            else Inr \<lparr> valid = (errs = [] \<and> (\<not> flag \<or> warns = [])),
                       errors = errs, warnings = warns \<rparr>)"
    unfolding f [symmetric] errs_def warns_def cwd_def
    by (auto simp add: validate_def Let_def)
  have nf: "vo_strict options = Some False
          \<or> (vo_strict options = None \<and> strict (validation config) = Some False) \<Longrightarrow> \<not> flag"
    unfolding flag_def by auto
  from f v nf show ?thesis by auto
qed

lemma toy_strict_run_1:
  "validate toy (toy_world [(''/w/src/main.ts'', ''a''), (''/w/action.yml'', ''node24'')]
                   [''CI'' \<mapsto> ''true''])
     default_config \<lparr> vo_cwd = None, vo_strict = None \<rparr>
     = Inl (ValidationFailed 0 1 ''Warnings treated as errors in strict mode'')"
  by (simp add: validate_defs toy_defs manifest_defs)

lemma toy_strict_run_2:
  "validate toy (toy_world [(''/w/src/main.ts'', ''a''), (''/w/action.yml'', ''node24'')]
                     [''CI'' \<mapsto> ''true''])
       default_config \<lparr> vo_cwd = None, vo_strict = Some False \<rparr>
     = Inr \<lparr> valid = True, errors = [],
             warnings = [makeWarning ''ACTION_YML_NO_BRANDING'' ''No branding configuration found''
               ''Add branding.icon and branding.color for better marketplace visibility''
               (Some ''/w/action.yml'')] \<rparr>"
  by (simp add: validate_defs toy_defs manifest_defs)

lemma toy_strict_run_3:
  "validate toy (toy_world [(''/w/src/main.ts'', ''a''), (''/w/action.yml'', ''node24'')]
                     [''CI'' \<mapsto> ''true''])
       (default_config\<lparr> validation := (validation default_config)\<lparr> strict := Some False \<rparr> \<rparr>)
       \<lparr> vo_cwd = None, vo_strict = None \<rparr>
     = Inr \<lparr> valid = True, errors = [],
             warnings = [makeWarning ''ACTION_YML_NO_BRANDING'' ''No branding configuration found''
               ''Add branding.icon and branding.color for better marketplace visibility''
               (Some ''/w/action.yml'')] \<rparr>"
  by (simp add: validate_defs toy_defs manifest_defs)

lemma toy_strict_run_4:
  "validate toy (toy_world [(''/w/src/main.ts'', ''a''), (''/w/action.yml'', ''node24'')]
                     [''CI'' \<mapsto> ''true''])
       (default_config\<lparr> validation := (validation default_config)\<lparr> strict := Some False \<rparr> \<rparr>)
       \<lparr> vo_cwd = None, vo_strict = Some True \<rparr>
     = Inl (ValidationFailed 0 1 ''Warnings treated as errors in strict mode'')"
  by (simp add: validate_defs toy_defs manifest_defs)

lemma toy_strict_run_5:
  "validate toy (toy_world [(''/w/src/main.ts'', ''a''), (''/w/action.yml'', ''node24'')]
                     [''GITHUB_ACTIONS'' \<mapsto> ''true''])
       default_config \<lparr> vo_cwd = None, vo_strict = None \<rparr>
     = Inl (ValidationFailed 0 1 ''Warnings treated as errors in strict mode'')"
  by (simp add: validate_defs toy_defs manifest_defs)

lemma toy_strict_run_6:
  "validate toy (toy_world [(''/w/src/main.ts'', ''a''), (''/w/action.yml'', ''node24'')]
                     [''CI'' \<mapsto> ''yes''])
       default_config \<lparr> vo_cwd = None, vo_strict = None \<rparr>
     = Inr \<lparr> valid = True, errors = [],
             warnings = [makeWarning ''ACTION_YML_NO_BRANDING'' ''No branding configuration found''
               ''Add branding.icon and branding.color for better marketplace visibility''
               (Some ''/w/action.yml'')] \<rparr>"
  by (simp add: validate_defs toy_defs manifest_defs)

theorem validate_strict_precedence_witness:
  "validate toy (toy_world [(''/w/src/main.ts'', ''a''), (''/w/action.yml'', ''node24'')]
                   [''CI'' \<mapsto> ''true''])
     default_config \<lparr> vo_cwd = None, vo_strict = None \<rparr>
     = Inl (ValidationFailed 0 1 ''Warnings treated as errors in strict mode'')
   \<and> validate toy (toy_world [(''/w/src/main.ts'', ''a''), (''/w/action.yml'', ''node24'')]
                     [''CI'' \<mapsto> ''true''])
       default_config \<lparr> vo_cwd = None, vo_strict = Some False \<rparr>
     = Inr \<lparr> valid = True, errors = [],
             warnings = [makeWarning ''ACTION_YML_NO_BRANDING'' ''No branding configuration found''
               ''Add branding.icon and branding.color for better marketplace visibility''
               (Some ''/w/action.yml'')] \<rparr>
   \<and> validate toy (toy_world [(''/w/src/main.ts'', ''a''), (''/w/action.yml'', ''node24'')]
                     [''CI'' \<mapsto> ''true''])
       (default_config\<lparr> validation := (validation default_config)\<lparr> strict := Some False \<rparr> \<rparr>)
       \<lparr> vo_cwd = None, vo_strict = None \<rparr>
     = Inr \<lparr> valid = True, errors = [],
             warnings = [makeWarning ''ACTION_YML_NO_BRANDING'' ''No branding configuration found''
               ''Add branding.icon and branding.color for better marketplace visibility''
               (Some ''/w/action.yml'')] \<rparr>
   \<and> validate toy (toy_world [(''/w/src/main.ts'', ''a''), (''/w/action.yml'', ''node24'')]
                     [''CI'' \<mapsto> ''true''])
       (default_config\<lparr> validation := (validation default_config)\<lparr> strict := Some False \<rparr> \<rparr>)
       \<lparr> vo_cwd = None, vo_strict = Some True \<rparr>
     = Inl (ValidationFailed 0 1 ''Warnings treated as errors in strict mode'')
   \<and> validate toy (toy_world [(''/w/src/main.ts'', ''a''), (''/w/action.yml'', ''node24'')]
                     [''GITHUB_ACTIONS'' \<mapsto> ''true''])
       default_config \<lparr> vo_cwd = None, vo_strict = None \<rparr>
     = Inl (ValidationFailed 0 1 ''Warnings treated as errors in strict mode'')
   \<and> validate toy (toy_world [(''/w/src/main.ts'', ''a''), (''/w/action.yml'', ''node24'')]
                     [''CI'' \<mapsto> ''yes''])
       default_config \<lparr> vo_cwd = None, vo_strict = None \<rparr>
     = Inr \<lparr> valid = True, errors = [],
             warnings = [makeWarning ''ACTION_YML_NO_BRANDING'' ''No branding configuration found''
               ''Add branding.icon and branding.color for better marketplace visibility''
               (Some ''/w/action.yml'')] \<rparr>"
  using validate_strict_precedence [where N = toy
          and w = "toy_world [(''/w/src/main.ts'', ''a''), (''/w/action.yml'', ''node24'')]
                     [''CI'' \<mapsto> ''true'']"
          and config = default_config and options = "\<lparr> vo_cwd = None, vo_strict = None \<rparr>"]
        validate_strict_precedence [where N = toy
          and w = "toy_world [(''/w/src/main.ts'', ''a''), (''/w/action.yml'', ''node24'')]
                     [''CI'' \<mapsto> ''true'']"
          and config = default_config
          and options = "\<lparr> vo_cwd = None, vo_strict = Some False \<rparr>"]
        validate_strict_precedence [where N = toy
          and w = "toy_world [(''/w/src/main.ts'', ''a''), (''/w/action.yml'', ''node24'')]
                     [''CI'' \<mapsto> ''true'']"
          and config = "default_config\<lparr> validation :=
                          (validation default_config)\<lparr> strict := Some False \<rparr> \<rparr>"
          and options = "\<lparr> vo_cwd = None, vo_strict = None \<rparr>"]
        validate_strict_precedence [where N = toy
          and w = "toy_world [(''/w/src/main.ts'', ''a''), (''/w/action.yml'', ''node24'')]
                     [''CI'' \<mapsto> ''true'']"
          and config = "default_config\<lparr> validation :=
                          (validation default_config)\<lparr> strict := Some False \<rparr> \<rparr>"
          and options = "\<lparr> vo_cwd = None, vo_strict = Some True \<rparr>"]
        validate_strict_precedence [where N = toy
          and w = "toy_world [(''/w/src/main.ts'', ''a''), (''/w/action.yml'', ''node24'')]
                     [''GITHUB_ACTIONS'' \<mapsto> ''true'']"
          and config = default_config and options = "\<lparr> vo_cwd = None, vo_strict = None \<rparr>"]
        validate_strict_precedence [where N = toy
          and w = "toy_world [(''/w/src/main.ts'', ''a''), (''/w/action.yml'', ''node24'')]
                     [''CI'' \<mapsto> ''yes'']"
          and config = default_config and options = "\<lparr> vo_cwd = None, vo_strict = None \<rparr>"]
  by (simp add: toy_strict_run_1 toy_strict_run_2 toy_strict_run_3 toy_strict_run_4 toy_strict_run_5 toy_strict_run_6)

section \<open>Configuration resolution: results\<close>

text \<open>
  C9. \<open>resolve\<close> never fails: for every input it returns a configuration. A
  field that the input leaves unset (its section absent, or the field absent in
  its section) has the default of the schema: \<open>entries.main = "src/main.ts"\<close>,
  \<open>build.minify = true\<close>, \<open>build.target = "es2022"\<close>, \<open>build.sourceMap = false\<close>,
  \<open>build.externals = []\<close>, \<open>build.quiet = false\<close>,
  \<open>validation.requireActionYml = true\<close>. Resolving the same input again gives
  an equal configuration, and so does resolving the resolved configuration.
\<close>

theorem resolve_defaults:
  "\<exists>c. resolve i = Inr c
     \<and> (Option.bind (entries_in i) main_in = None \<longrightarrow> main (entries c) = ''src/main.ts'')
     \<and> (Option.bind (build_in i) minify_in = None \<longrightarrow> minify (build_options c) = True)
     \<and> (Option.bind (build_in i) target_in = None \<longrightarrow> target (build_options c) = es2022)
     \<and> (Option.bind (build_in i) sourceMap_in = None \<longrightarrow> sourceMap (build_options c) = False)
     \<and> (Option.bind (build_in i) externals_in = None \<longrightarrow> externals (build_options c) = [])
     \<and> (Option.bind (build_in i) quiet_in = None \<longrightarrow> quiet (build_options c) = False)
     \<and> (Option.bind (validation_in i) requireActionYml_in = None
          \<longrightarrow> requireActionYml (validation c) = True)
     \<and> (\<forall>c'. resolve i = Inr c' \<longrightarrow> c' = c)
     \<and> resolve (Config_as_input c) = Inr c"
  by (cases "entries_in i"; cases "build_in i"; cases "validation_in i")
     (simp_all add: config_defs Config_as_input_def split: option.splits)

theorem resolve_defaults_witness:
  "resolve \<lparr> entries_in = None,
             build_in = Some (no_build\<lparr> minify_in := Some False \<rparr>),
             validation_in = Some no_validation \<rparr>
   = Inr \<lparr> entries = \<lparr> main = ''src/main.ts'', pre = None, post = None \<rparr>,
           build_options = \<lparr> minify = False, target = es2022, sourceMap = False,
                             externals = [], quiet = False \<rparr>,
           validation = \<lparr> requireActionYml = True, maxBundleSize = None, strict = None \<rparr> \<rparr>"
  using resolve_defaults [of "\<lparr> entries_in = None,
             build_in = Some (no_build\<lparr> minify_in := Some False \<rparr>),
             validation_in = Some no_validation \<rparr>"]
  by (simp add: config_defs)

section \<open>Entry point detection: results\<close>

text \<open>
  C6. \<open>detectEntries\<close> fails exactly when the primary entry file (the override,
  or \<open>src/main.ts\<close>) does not exist under the working directory, and the failure
  is \<open>MainEntryMissing\<close> with the path as given and the working directory.
  Otherwise the result starts with the main entry, and the pre and post entries
  follow exactly when their files (override or \<open>src/pre.ts\<close>, \<open>src/post.ts\<close>)
  exist; each entry has the output path \<open>dist/<role>.js\<close>. With only the
  primary file there is one entry, of the main role; with all three files there
  are three, tagged main, pre, post in that order.
\<close>

theorem detectEntries_roles:
  fixes N :: "'fs platform" and ov :: "EntriesInput option" and f :: 'fs and cwd :: string
  defines "mainPath \<equiv> nullish (Option.bind ov main_in) ''src/main.ts''"
    and "prePath \<equiv> nullish (Option.bind ov pre_in) ''src/pre.ts''"
    and "postPath \<equiv> nullish (Option.bind ov post_in) ''src/post.ts''"
  defines "hasMain \<equiv> existsSync N f (path_resolve N cwd mainPath)"
    and "hasPre \<equiv> existsSync N f (path_resolve N cwd prePath)"
    and "hasPost \<equiv> existsSync N f (path_resolve N cwd postPath)"
  shows "((\<exists>e. detectEntries N f cwd ov = Inl e) \<longleftrightarrow> \<not> hasMain)
    \<and> (\<not> hasMain \<longrightarrow> detectEntries N f cwd ov = Inl (MainEntryMissing mainPath cwd))
    \<and> (hasMain \<longrightarrow>
         (\<exists>r. detectEntries N f cwd ov = Inr r
            \<and> map (\<lambda>e. (entry_type e, entry_path e, entry_output e)) (de_entries r) =
                [(Main, path_resolve N cwd mainPath, ''dist/main.js'')]
                @ (if hasPre then [(Pre, path_resolve N cwd prePath, ''dist/pre.js'')] else [])
                @ (if hasPost then [(Post, path_resolve N cwd postPath, ''dist/post.js'')] else [])
            \<and> (hasPre \<longleftrightarrow> Pre \<in> entry_type ` set (de_entries r))
            \<and> (hasPost \<longleftrightarrow> Post \<in> entry_type ` set (de_entries r))
            \<and> (\<not> hasPre \<and> \<not> hasPost \<longrightarrow> map entry_type (de_entries r) = [Main])
            \<and> (hasPre \<and> hasPost \<longrightarrow>
                 map (\<lambda>e. (entry_type e, entry_output e)) (de_entries r) =
                   [(Main, ''dist/main.js''), (Pre, ''dist/pre.js''), (Post, ''dist/post.js'')])))"
  unfolding assms
  by (simp add: detectEntries_def detectOptionalEntry_def push_if_def Let_def nullish_def)

theorem detectEntries_roles_witness:
  "detectEntries toy [] ''/w'' None = Inl (MainEntryMissing ''src/main.ts'' ''/w'')
   \<and> detectEntries toy [(''/w/src/main.ts'', ''a'')] ''/w'' None
       = Inr \<lparr> de_success = True,
               de_entries = [\<lparr> entry_type = Main, entry_path = ''/w/src/main.ts'',
                               entry_output = ''dist/main.js'' \<rparr>] \<rparr>
   \<and> map entry_type (de_entries (projr (detectEntries toy
         [(''/w/src/index.ts'', ''a''), (''/w/src/pre.ts'', ''b''), (''/w/src/post.ts'', ''c'')] ''/w''
         (Some \<lparr> main_in = Some ''src/index.ts'', pre_in = None, post_in = None \<rparr>))))
       = [Main, Pre, Post]"
  using detectEntries_roles [of toy "[]" "''/w''" None]
        detectEntries_roles [of toy "[(''/w/src/main.ts'', ''a'')]" "''/w''" None]
        detectEntries_roles [of toy
          "[(''/w/src/index.ts'', ''a''), (''/w/src/pre.ts'', ''b''), (''/w/src/post.ts'', ''c'')]"
          "''/w''" "Some \<lparr> main_in = Some ''src/index.ts'', pre_in = None, post_in = None \<rparr>"]
  by (simp add: toy_defs nullish_def detectEntries_def detectOptionalEntry_def push_if_def)

section \<open>The validation orchestrator: results\<close>

text \<open>
  C1. Let the error items of a \<open>validate\<close> call be those of the entry check
  followed by those of the manifest check, and its warning items those of the
  manifest check. In strict mode with no error item and at least one warning
  item the call fails with \<open>ValidationFailed\<close>, error count 0 and the number of
  warnings. With at least one error item, strict or not, it returns a result
  with \<open>valid = false\<close> that carries the items. In the remaining case it returns
  a result with \<open>valid = true\<close>.
\<close>

theorem validate_verdict:
  fixes N :: "'fs platform" and w :: "'fs world" and config :: Config and options :: ValidateOptions
  defines "cwd \<equiv> nullish (vo_cwd options) (process_cwd w)"
  defines "errs \<equiv> checkEntries N (fs w) config cwd @ fst (checkActionYml N (fs w) config cwd)"
    and "warns \<equiv> snd (checkActionYml N (fs w) config cwd)"
    and "is_strict \<equiv> validate_strict (process_env w) config options"
  shows "(is_strict \<and> errs = [] \<and> warns \<noteq> [] \<longrightarrow>
            validate N w config options =
              Inl (ValidationFailed 0 (length warns) ''Warnings treated as errors in strict mode''))
     \<and> (errs \<noteq> [] \<longrightarrow>
            validate N w config options = Inr \<lparr> valid = False, errors = errs, warnings = warns \<rparr>)
     \<and> (errs = [] \<and> (\<not> is_strict \<or> warns = []) \<longrightarrow>
            validate N w config options = Inr \<lparr> valid = True, errors = [], warnings = warns \<rparr>)"
  unfolding assms
  by (auto simp add: validate_def Let_def)

theorem validate_verdict_witness:
  "validate toy (toy_world [(''/w/src/main.ts'', ''a''), (''/w/action.yml'', ''node24'')] Map.empty)
     default_config \<lparr> vo_cwd = None, vo_strict = Some True \<rparr>
   = Inl (ValidationFailed 0 1 ''Warnings treated as errors in strict mode'')
   \<and> valid (projr (validate toy
        (toy_world [(''/w/src/main.ts'', ''a''), (''/w/action.yml'', ''node24'')] Map.empty)
        default_config \<lparr> vo_cwd = None, vo_strict = Some False \<rparr>))
   \<and> \<not> valid (projr (validate toy
        (toy_world [(''/w/src/main.ts'', ''a''), (''/w/action.yml'', ''node20'')] Map.empty)
        default_config \<lparr> vo_cwd = None, vo_strict = Some True \<rparr>))"
  using validate_verdict [where N = toy and w = "toy_world [(''/w/src/main.ts'', ''a''), (''/w/action.yml'', ''node24'')] Map.empty"
          and config = default_config and options = "\<lparr> vo_cwd = None, vo_strict = Some True \<rparr>"]
        validate_verdict [where N = toy and w = "toy_world [(''/w/src/main.ts'', ''a''), (''/w/action.yml'', ''node24'')] Map.empty"
          and config = default_config and options = "\<lparr> vo_cwd = None, vo_strict = Some False \<rparr>"]
        validate_verdict [where N = toy and w = "toy_world [(''/w/src/main.ts'', ''a''), (''/w/action.yml'', ''node20'')] Map.empty"
          and config = default_config and options = "\<lparr> vo_cwd = None, vo_strict = Some True \<rparr>"]
  by (simp add: validate_defs toy_defs manifest_defs)

lemma checkActionYml_codes:
  "e \<in> set (fst (checkActionYml N f config cwd)) \<Longrightarrow>
     code e \<noteq> ''MAIN_ENTRY_MISSING''"
  by (auto simp add: checkActionYml_def Let_def split: if_splits sum.splits failure.splits)

lemma build_main_missing:
  "\<not> existsSync N (fs w) (path_resolve N (nullish (bo_cwd bo) (process_cwd w)) (main (entries config)))
   \<Longrightarrow> build N w config bo =
        (Inl (MainEntryMissing (main (entries config)) (nullish (bo_cwd bo) (process_cwd w))),
         w\<lparr> clock_reads := Suc (clock_reads w) \<rparr>)"
  by (simp add: build_def Date_now_def Let_def detectEntries_def entriesConfig_def nullish_def)

text \<open>
  C4. When the primary entry file is missing, \<open>build\<close> fails with
  \<open>MainEntryMissing\<close> and returns no result, while \<open>validate\<close> returns a result
  that is not valid and has exactly one error item with the code
  \<open>MAIN_ENTRY_MISSING\<close>.
\<close>

theorem main_entry_missing_divergence:
  fixes N :: "'fs platform"
  assumes "\<not> existsSync N (fs w) (path_resolve N cwd (main (entries config)))"
  shows "(nullish (bo_cwd bo) (process_cwd w) = cwd \<longrightarrow>
            fst (build N w config bo) = Inl (MainEntryMissing (main (entries config)) cwd))
     \<and> (nullish (vo_cwd vo) (process_cwd w) = cwd \<longrightarrow>
          (\<exists>r. validate N w config vo = Inr r
             \<and> \<not> valid r
             \<and> filter (\<lambda>e. code e = ''MAIN_ENTRY_MISSING'') (errors r) =
                 [\<lparr> code = ''MAIN_ENTRY_MISSING'',
                     message = ''Main entry point not found: '' @ main (entries config),
                     file_path = Some (main (entries config)),
                     suggestion = Some ''Create src/main.ts or specify a different path in config'' \<rparr>]))"
proof (intro conjI impI)
  assume "nullish (bo_cwd bo) (process_cwd w) = cwd"
  with assms show "fst (build N w config bo) = Inl (MainEntryMissing (main (entries config)) cwd)"
    using build_main_missing [of N w bo config] by simp
next
  assume c: "nullish (vo_cwd vo) (process_cwd w) = cwd"
  let ?item = "\<lparr> code = ''MAIN_ENTRY_MISSING'',
                  message = ''Main entry point not found: '' @ main (entries config),
                  file_path = Some (main (entries config)),
                  suggestion = Some ''Create src/main.ts or specify a different path in config'' \<rparr>"
  let ?ay = "checkActionYml N (fs w) config cwd"
  have ce: "checkEntries N (fs w) config cwd = [?item]"
    using assms by (simp add: checkEntries_def detectEntries_def entriesConfig_def nullish_def)
  have v: "validate N w config vo = Inr \<lparr> valid = False, errors = ?item # fst ?ay, warnings = snd ?ay \<rparr>"
    using c ce by (simp add: validate_def Let_def)
  have "filter (\<lambda>e. code e = ''MAIN_ENTRY_MISSING'') (fst ?ay) = []"
    using checkActionYml_codes [of _ N "fs w" config cwd] by (auto simp add: filter_empty_conv)
  with v show "\<exists>r. validate N w config vo = Inr r \<and> \<not> valid r
             \<and> filter (\<lambda>e. code e = ''MAIN_ENTRY_MISSING'') (errors r) = [?item]"
    by simp
qed

theorem main_entry_missing_divergence_witness:
  "fst (build toy (toy_world [(''/w/action.yml'', ''branded'')] Map.empty) default_config
          \<lparr> bo_cwd = None, bo_clean = None \<rparr>)
     = Inl (MainEntryMissing ''src/main.ts'' ''/w'')
   \<and> validate toy (toy_world [(''/w/action.yml'', ''branded'')] Map.empty) default_config
         \<lparr> vo_cwd = None, vo_strict = Some True \<rparr>
     = Inr \<lparr> valid = False,
             errors = [\<lparr> code = ''MAIN_ENTRY_MISSING'',
                          message = ''Main entry point not found: src/main.ts'',
                          file_path = Some ''src/main.ts'',
                          suggestion = Some ''Create src/main.ts or specify a different path in config'' \<rparr>],
             warnings = [] \<rparr>"
proof -
  have h: "\<not> existsSync toy (fs (toy_world [(''/w/action.yml'', ''branded'')] Map.empty))
               (path_resolve toy ''/w'' (main (entries default_config)))"
    by (simp add: toy_defs default_config_def no_config_def config_defs)
  from main_entry_missing_divergence [OF h,
          where bo = "\<lparr> bo_cwd = None, bo_clean = None \<rparr>"
          and vo = "\<lparr> vo_cwd = None, vo_strict = Some True \<rparr>"]
  show ?thesis
    by (simp add: validate_defs toy_defs manifest_defs BrandingIcon_def)
qed

text \<open>
  C7, as the code has it. With \<open>requireActionYml\<close> false the manifest check
  gives no error and no warning, and \<open>validate\<close> returns the items of the entry
  check alone. Otherwise the manifest is validated at \<open>action.yml\<close> under the
  working directory. A missing file gives one warning with the code
  \<open>ACTION_YML_MISSING\<close> and no error: \<open>validate\<close> returns it as its only warning,
  or, in strict mode without entry errors, fails with a warning count of one. A
  file that is there and cannot be read as an object gives one error item with
  the code \<open>ACTION_YML_SYNTAX_ERROR\<close>, and a tree that fails the schema gives
  exactly one error item with the code \<open>ACTION_YML_SCHEMA_ERROR\<close>, whose message
  is the formatted issue, however many places of the tree violate the schema;
  in both cases \<open>validate\<close> returns these after the entry errors, without a
  warning and with \<open>valid = false\<close>.
\<close>

theorem checkActionYml_sources:
  fixes N :: "'fs platform" and w :: "'fs world" and config :: Config and options :: ValidateOptions
  defines "cwd \<equiv> nullish (vo_cwd options) (process_cwd w)"
  defines "p \<equiv> path_resolve N cwd ''action.yml''"
    and "entryErrs \<equiv> checkEntries N (fs w) config cwd"
    and "is_strict \<equiv> validate_strict (process_env w) config options"
  defines "missing \<equiv> \<lparr> code = ''ACTION_YML_MISSING'', message = ''action.yml not found'',
                         file_path = Some p,
                         suggestion = Some ''Create action.yml to define your action metadata'' \<rparr>"
  shows "(\<not> requireActionYml (validation config) \<longrightarrow>
            checkActionYml N (fs w) config cwd = ([], [])
            \<and> validate N w config options =
                Inr \<lparr> valid = (entryErrs = []), errors = entryErrs, warnings = [] \<rparr>)
     \<and> (requireActionYml (validation config) \<and> \<not> existsSync N (fs w) p \<longrightarrow>
            checkActionYml N (fs w) config cwd = ([], [missing])
            \<and> validate N w config options =
                (if is_strict \<and> entryErrs = []
                 then Inl (ValidationFailed 0 1 ''Warnings treated as errors in strict mode'')
                 else Inr \<lparr> valid = (entryErrs = []), errors = entryErrs,
                            warnings = [missing] \<rparr>))
     \<and> (\<forall>e. requireActionYml (validation config) \<and> existsSync N (fs w) p
            \<and> readActionYml N (fs w) p = Inl e \<longrightarrow>
            (\<exists>m. e = ActionYmlSyntaxError p m
               \<and> checkActionYml N (fs w) config cwd =
                   ([\<lparr> code = ''ACTION_YML_SYNTAX_ERROR'', message = m, file_path = Some p,
                        suggestion = None \<rparr>], [])
               \<and> validate N w config options =
                   Inr \<lparr> valid = False,
                         errors = entryErrs @ [\<lparr> code = ''ACTION_YML_SYNTAX_ERROR'', message = m,
                                                 file_path = Some p, suggestion = None \<rparr>],
                         warnings = [] \<rparr>))
     \<and> (\<forall>parsed issue. requireActionYml (validation config)
            \<and> readActionYml N (fs w) p = Inr parsed
            \<and> decode ActionYml parsed = Inl issue \<longrightarrow>
            checkActionYml N (fs w) config cwd =
              ([\<lparr> code = ''ACTION_YML_SCHEMA_ERROR'', message = formatErrorSync N issue,
                   file_path = Some p, suggestion = None \<rparr>], [])
            \<and> validate N w config options =
                Inr \<lparr> valid = False,
                      errors = entryErrs @ [\<lparr> code = ''ACTION_YML_SCHEMA_ERROR'',
                                              message = formatErrorSync N issue,
                                              file_path = Some p, suggestion = None \<rparr>],
                      warnings = [] \<rparr>)"
proof -
  have v: "validate N w config options =
      (let ay = checkActionYml N (fs w) config cwd;
           errs = entryErrs @ fst ay; warns = snd ay
       in if is_strict \<and> length warns > 0 \<and> length errs = 0
          then Inl (ValidationFailed 0 (length warns) ''Warnings treated as errors in strict mode'')
          else Inr \<lparr> valid = (length errs = 0 \<and> (\<not> is_strict \<or> length warns = 0)),
                     errors = errs, warnings = warns \<rparr>)"
    unfolding cwd_def entryErrs_def is_strict_def by (simp add: validate_def Let_def)
  have off: "\<not> requireActionYml (validation config) \<Longrightarrow>
      checkActionYml N (fs w) config cwd = ([], [])"
    by (simp add: checkActionYml_def)
  have miss: "requireActionYml (validation config) \<Longrightarrow> \<not> existsSync N (fs w) p \<Longrightarrow>
      checkActionYml N (fs w) config cwd = ([], [missing])"
    unfolding p_def missing_def
    by (simp add: checkActionYml_def Let_def validateActionYml_def readActionYml_def)
  have syn: "\<exists>m. e = ActionYmlSyntaxError p m
               \<and> checkActionYml N (fs w) config cwd =
                   ([\<lparr> code = ''ACTION_YML_SYNTAX_ERROR'', message = m, file_path = Some p,
                        suggestion = None \<rparr>], [])"
    if "requireActionYml (validation config)" "existsSync N (fs w) p"
       "readActionYml N (fs w) p = Inl e" for e
  proof -
    from that(2,3) obtain m where e: "e = ActionYmlSyntaxError p m"
      by (auto simp add: readActionYml_def split: sum.splits if_splits)
    with that(1,3) have "checkActionYml N (fs w) config cwd =
                   ([\<lparr> code = ''ACTION_YML_SYNTAX_ERROR'', message = m, file_path = Some p,
                        suggestion = None \<rparr>], [])"
      unfolding p_def by (simp add: checkActionYml_def Let_def validateActionYml_def)
    with e show ?thesis by blast
  qed
  have sch: "checkActionYml N (fs w) config cwd =
              ([\<lparr> code = ''ACTION_YML_SCHEMA_ERROR'', message = formatErrorSync N issue,
                   file_path = Some p, suggestion = None \<rparr>], [])"
    if "requireActionYml (validation config)" "readActionYml N (fs w) p = Inr parsed"
       "decode ActionYml parsed = Inl issue" for parsed issue
    using that unfolding p_def
    by (simp add: checkActionYml_def Let_def validateActionYml_def validateSchema_def
        formatSchemaErrors_def)
  show ?thesis
  proof (intro conjI impI allI)
    assume a: "\<not> requireActionYml (validation config)"
    from off [OF a] show "checkActionYml N (fs w) config cwd = ([], [])" .
    from off [OF a] show "validate N w config options =
                Inr \<lparr> valid = (entryErrs = []), errors = entryErrs, warnings = [] \<rparr>"
      by (simp add: v)
  next
    assume a: "requireActionYml (validation config) \<and> \<not> existsSync N (fs w) p"
    then have m: "checkActionYml N (fs w) config cwd = ([], [missing])" using miss by blast
    then show "checkActionYml N (fs w) config cwd = ([], [missing])" .
    from m show "validate N w config options =
                (if is_strict \<and> entryErrs = []
                 then Inl (ValidationFailed 0 1 ''Warnings treated as errors in strict mode'')
                 else Inr \<lparr> valid = (entryErrs = []), errors = entryErrs,
                            warnings = [missing] \<rparr>)"
      by (auto simp add: v)
  next
    fix e
    assume a: "requireActionYml (validation config) \<and> existsSync N (fs w) p
            \<and> readActionYml N (fs w) p = Inl e"
    then obtain m where e: "e = ActionYmlSyntaxError p m"
      and c: "checkActionYml N (fs w) config cwd =
                   ([\<lparr> code = ''ACTION_YML_SYNTAX_ERROR'', message = m, file_path = Some p,
                        suggestion = None \<rparr>], [])"
      using syn [of e] by blast
    from c have "validate N w config options =
                   Inr \<lparr> valid = False,
                         errors = entryErrs @ [\<lparr> code = ''ACTION_YML_SYNTAX_ERROR'', message = m,
                                                 file_path = Some p, suggestion = None \<rparr>],
                         warnings = [] \<rparr>"
      by (simp add: v)
    with e c show "\<exists>m. e = ActionYmlSyntaxError p m
               \<and> checkActionYml N (fs w) config cwd =
                   ([\<lparr> code = ''ACTION_YML_SYNTAX_ERROR'', message = m, file_path = Some p,
                        suggestion = None \<rparr>], [])
               \<and> validate N w config options =
                   Inr \<lparr> valid = False,
                         errors = entryErrs @ [\<lparr> code = ''ACTION_YML_SYNTAX_ERROR'', message = m,
                                                 file_path = Some p, suggestion = None \<rparr>],
                         warnings = [] \<rparr>"
      by blast
  next
    fix parsed issue
    assume a: "requireActionYml (validation config)
            \<and> readActionYml N (fs w) p = Inr parsed
            \<and> decode ActionYml parsed = Inl issue"
    then have c: "checkActionYml N (fs w) config cwd =
              ([\<lparr> code = ''ACTION_YML_SCHEMA_ERROR'', message = formatErrorSync N issue,
                   file_path = Some p, suggestion = None \<rparr>], [])"
      using sch [of parsed issue] by blast
    then show "checkActionYml N (fs w) config cwd =
              ([\<lparr> code = ''ACTION_YML_SCHEMA_ERROR'', message = formatErrorSync N issue,
                   file_path = Some p, suggestion = None \<rparr>], [])" .
    from c show "validate N w config options =
                Inr \<lparr> valid = False,
                      errors = entryErrs @ [\<lparr> code = ''ACTION_YML_SCHEMA_ERROR'',
                                              message = formatErrorSync N issue,
                                              file_path = Some p, suggestion = None \<rparr>],
                      warnings = [] \<rparr>"
      by (simp add: v)
  qed
qed

lemma toy_manifest_run_1:
  "validate toy (toy_world [(''/w/src/main.ts'', ''a''), (''/w/action.yml'', ''node20'')] Map.empty)
     (default_config\<lparr> validation := (validation default_config)\<lparr> requireActionYml := False \<rparr> \<rparr>)
     \<lparr> vo_cwd = None, vo_strict = Some True \<rparr>
     = Inr \<lparr> valid = True, errors = [], warnings = [] \<rparr>"
  by (simp add: validate_defs toy_defs manifest_defs)

lemma toy_manifest_run_2:
  "validate toy (toy_world [(''/w/src/main.ts'', ''a'')] Map.empty) default_config
       \<lparr> vo_cwd = None, vo_strict = Some False \<rparr>
     = Inr \<lparr> valid = True, errors = [],
             warnings = [\<lparr> code = ''ACTION_YML_MISSING'', message = ''action.yml not found'',
                            file_path = Some ''/w/action.yml'',
                            suggestion = Some ''Create action.yml to define your action metadata'' \<rparr>] \<rparr>"
  by (simp add: validate_defs toy_defs manifest_defs)

lemma toy_manifest_run_3:
  "validate toy (toy_world [(''/w/src/main.ts'', ''a'')] Map.empty) default_config
       \<lparr> vo_cwd = None, vo_strict = Some True \<rparr>
     = Inl (ValidationFailed 0 1 ''Warnings treated as errors in strict mode'')"
  by (simp add: validate_defs toy_defs manifest_defs)

lemma toy_manifest_run_4:
  "validate toy (toy_world [(''/w/src/main.ts'', ''a''), (''/w/action.yml'', ''a: b: c'')] Map.empty)
       default_config \<lparr> vo_cwd = None, vo_strict = None \<rparr>
     = Inr \<lparr> valid = False,
             errors = [\<lparr> code = ''ACTION_YML_SYNTAX_ERROR'', message = ''Unexpected token'',
                          file_path = Some ''/w/action.yml'', suggestion = None \<rparr>],
             warnings = [] \<rparr>"
  by (simp add: validate_defs toy_defs manifest_defs)

lemma toy_manifest_run_5:
  "validate toy (toy_world [(''/w/src/main.ts'', ''a''), (''/w/action.yml'', ''node20'')] Map.empty)
       default_config \<lparr> vo_cwd = None, vo_strict = None \<rparr>
     = Inr \<lparr> valid = False,
             errors = [\<lparr> code = ''ACTION_YML_SCHEMA_ERROR'', message = ''schema mismatch'',
                          file_path = Some ''/w/action.yml'', suggestion = None \<rparr>],
             warnings = [] \<rparr>"
  by (simp add: validate_defs toy_defs manifest_defs)

theorem checkActionYml_sources_witness:
  "validate toy (toy_world [(''/w/src/main.ts'', ''a''), (''/w/action.yml'', ''node20'')] Map.empty)
     (default_config\<lparr> validation := (validation default_config)\<lparr> requireActionYml := False \<rparr> \<rparr>)
     \<lparr> vo_cwd = None, vo_strict = Some True \<rparr>
     = Inr \<lparr> valid = True, errors = [], warnings = [] \<rparr>
   \<and> validate toy (toy_world [(''/w/src/main.ts'', ''a'')] Map.empty) default_config
       \<lparr> vo_cwd = None, vo_strict = Some False \<rparr>
     = Inr \<lparr> valid = True, errors = [],
             warnings = [\<lparr> code = ''ACTION_YML_MISSING'', message = ''action.yml not found'',
                            file_path = Some ''/w/action.yml'',
                            suggestion = Some ''Create action.yml to define your action metadata'' \<rparr>] \<rparr>
   \<and> validate toy (toy_world [(''/w/src/main.ts'', ''a'')] Map.empty) default_config
       \<lparr> vo_cwd = None, vo_strict = Some True \<rparr>
     = Inl (ValidationFailed 0 1 ''Warnings treated as errors in strict mode'')
   \<and> validate toy (toy_world [(''/w/src/main.ts'', ''a''), (''/w/action.yml'', ''a: b: c'')] Map.empty)
       default_config \<lparr> vo_cwd = None, vo_strict = None \<rparr>
     = Inr \<lparr> valid = False,
             errors = [\<lparr> code = ''ACTION_YML_SYNTAX_ERROR'', message = ''Unexpected token'',
                          file_path = Some ''/w/action.yml'', suggestion = None \<rparr>],
             warnings = [] \<rparr>
   \<and> validate toy (toy_world [(''/w/src/main.ts'', ''a''), (''/w/action.yml'', ''node20'')] Map.empty)
       default_config \<lparr> vo_cwd = None, vo_strict = None \<rparr>
     = Inr \<lparr> valid = False,
             errors = [\<lparr> code = ''ACTION_YML_SCHEMA_ERROR'', message = ''schema mismatch'',
                          file_path = Some ''/w/action.yml'', suggestion = None \<rparr>],
             warnings = [] \<rparr>"
  using checkActionYml_sources [where N = toy
          and w = "toy_world [(''/w/src/main.ts'', ''a''), (''/w/action.yml'', ''node20'')] Map.empty"
          and config = "default_config\<lparr> validation :=
                          (validation default_config)\<lparr> requireActionYml := False \<rparr> \<rparr>"
          and options = "\<lparr> vo_cwd = None, vo_strict = Some True \<rparr>"]
        checkActionYml_sources [where N = toy
          and w = "toy_world [(''/w/src/main.ts'', ''a'')] Map.empty"
          and config = default_config
          and options = "\<lparr> vo_cwd = None, vo_strict = Some False \<rparr>"]
        checkActionYml_sources [where N = toy
          and w = "toy_world [(''/w/src/main.ts'', ''a'')] Map.empty"
          and config = default_config
          and options = "\<lparr> vo_cwd = None, vo_strict = Some True \<rparr>"]
        checkActionYml_sources [where N = toy
          and w = "toy_world [(''/w/src/main.ts'', ''a''), (''/w/action.yml'', ''a: b: c'')] Map.empty"
          and config = default_config
          and options = "\<lparr> vo_cwd = None, vo_strict = None \<rparr>"]
        checkActionYml_sources [where N = toy
          and w = "toy_world [(''/w/src/main.ts'', ''a''), (''/w/action.yml'', ''node20'')] Map.empty"
          and config = default_config
          and options = "\<lparr> vo_cwd = None, vo_strict = None \<rparr>"]
  by (simp add: toy_manifest_run_1 toy_manifest_run_2 toy_manifest_run_3 toy_manifest_run_4 toy_manifest_run_5)

text \<open>
  C7, as stated, fails on a project whose manifest is the empty object: the
  tree violates the schema in three places, and \<open>validate\<close> returns one error
  item for the manifest, not three.
\<close>

theorem manifest_errors_not_per_violation:
  "validate toy (toy_world [(''/w/src/main.ts'', ''a''), (''/w/action.yml'', ''{}'')] Map.empty)
     default_config \<lparr> vo_cwd = None, vo_strict = Some False \<rparr>
     = Inr \<lparr> valid = False,
             errors = [\<lparr> code = ''ACTION_YML_SCHEMA_ERROR'', message = ''schema mismatch'',
                          file_path = Some ''/w/action.yml'', suggestion = None \<rparr>],
             warnings = [] \<rparr>
   \<and> field_violations ActionYml (JObj []) = [[''name''], [''description''], [''runs'']]
   \<and> length [\<lparr> code = ''ACTION_YML_SCHEMA_ERROR'', message = ''schema mismatch'',
                 file_path = Some ''/w/action.yml'', suggestion = None \<rparr>]
       \<noteq> length (field_violations ActionYml (JObj []))"
  by (simp add: validate_defs toy_defs manifest_defs)

section \<open>Manifest schema validation: results\<close>

lemma isl_case_sum_Inr [simp]:
  "isl (case x of Inl e \<Rightarrow> Inl (g e) | Inr v \<Rightarrow> Inr (h v)) = isl x"
  by (cases x) simp_all

lemma decode_fails_iff:
  "isl (decode s v) = (field_violations s v \<noteq> [])"
  "isl (decode_props ps kvs) = (prop_violations ps kvs \<noteq> [])"
  "isl (decode_values s kvs') = (value_violations s kvs' \<noteq> [])"
proof (induction s v and ps kvs and s kvs' rule: decode_decode_props_decode_values.induct)
  case (1 v)
  then show ?case by (cases v) simp_all
next
  case (2 v)
  then show ?case by (cases v) simp_all
next
  case (3 ls v)
  then show ?case by (cases v) simp_all
next
  case (4 s v)
  then show ?case by simp
next
  case (5 s v)
  then show ?case by (cases v) simp_all
next
  case (6 ps v)
  then show ?case by (cases v) simp_all
next
  case (7 kvs)
  then show ?case by simp
next
  case (8 name s ps kvs)
  show ?case
  proof (cases "map_of kvs name")
    case None
    with "8.IH"(1) show ?thesis by (cases s) simp_all
  next
    case (Some v)
    note v = "8.IH"(2) [OF Some]
    show ?thesis
    proof (cases "decode s v")
      case (Inl e)
      with Some v show ?thesis by simp
    next
      case (Inr v')
      with Some v "8.IH"(3) [OF Some Inr] show ?thesis by simp
    qed
  qed
next
  case (9 s)
  then show ?case by simp
next
  case (10 s k v kvs)
  show ?case
  proof (cases "decode s v")
    case (Inl e)
    with "10.IH"(1) show ?thesis by simp
  next
    case (Inr v')
    with "10.IH"(1) "10.IH"(2) [OF Inr] show ?thesis by simp
  qed
qed

lemma decode_props_required:
  "(name, s) \<in> set ps \<Longrightarrow> decode_props ps kvs = Inr out \<Longrightarrow> \<forall>t. s \<noteq> SOptional t \<Longrightarrow>
     \<exists>v v'. map_of kvs name = Some v \<and> decode s v = Inr v'"
proof (induction ps arbitrary: out)
  case Nil
  then show ?case by simp
next
  case (Cons a ps)
  obtain n t where a: "a = (n, t)" by (cases a)
  show ?case
  proof (cases "(name, s) = (n, t)")
    case True
    with Cons.prems a show ?thesis
      by (auto split: option.splits sum.splits schema.splits)
  next
    case False
    with Cons.prems a have "(name, s) \<in> set ps" by auto
    moreover from Cons.prems a obtain out' where "decode_props ps kvs = Inr out'"
      by (auto split: option.splits sum.splits schema.splits)
    ultimately show ?thesis using Cons.IH Cons.prems(3) by blast
  qed
qed

lemma decode_ActionYml_using:
  assumes "decode ActionYml parsed = Inr content"
  shows "Option.bind (get_prop parsed ''runs'') (\<lambda>r. get_prop r ''using'') = Some (JStr ''node24'')"
proof -
  from assms obtain kvs out where p: "parsed = JObj kvs"
    and d: "decode_props [
     (''name'', SString),
     (''description'', SString),
     (''author'', SOptional SString),
     (''inputs'', SOptional (SRecord ActionInput)),
     (''outputs'', SOptional (SRecord ActionOutput)),
     (''runs'', Runs),
     (''branding'', SOptional Branding)] kvs = Inr out"
    by (cases parsed) (auto simp add: ActionYml_def split: sum.splits)
  have "\<forall>t. Runs \<noteq> SOptional t" by (simp add: Runs_def)
  with decode_props_required [OF _ d, of "''runs''" Runs]
  obtain rv rv' where r: "map_of kvs ''runs'' = Some rv" and dr: "decode Runs rv = Inr rv'"
    by auto
  from dr obtain rkvs rout where rp: "rv = JObj rkvs"
    and rd: "decode_props [
     (''using'', SLiteral [''node24'']),
     (''main'', SString),
     (''pre'', SOptional SString),
     (''pre-if'', SOptional SString),
     (''post'', SOptional SString),
     (''post-if'', SOptional SString)] rkvs = Inr rout"
    by (cases rv) (auto simp add: Runs_def split: sum.splits)
  from decode_props_required [OF _ rd, of "''using''" "SLiteral [''node24'']"]
  obtain uv uv' where u: "map_of rkvs ''using'' = Some uv"
    and du: "decode (SLiteral [''node24'']) uv = Inr uv'"
    by auto
  from du have "uv = JStr ''node24''"
    by (cases uv) (auto split: if_splits)
  with p r rp u show ?thesis by simp
qed

text \<open>
  C3. A parsed manifest whose \<open>runs.using\<close> is not the string \<open>node24\<close> (another
  value, or none) fails schema validation with \<open>ActionYmlSchemaError\<close>, whatever
  its other fields are. When such a manifest is the object parsed from
  \<open>action.yml\<close> and the manifest is required, \<open>validate\<close> returns a result with
  \<open>valid = false\<close>, with an error item of the code \<open>ACTION_YML_SCHEMA_ERROR\<close> and
  without a warning.
\<close>

theorem runs_using_must_be_node24:
  fixes N :: "'fs platform" and w :: "'fs world"
  assumes "Option.bind (get_prop parsed ''runs'') (\<lambda>r. get_prop r ''using'') \<noteq> Some (JStr ''node24'')"
  shows "(\<exists>es. validateSchema N parsed p = Inl (ActionYmlSchemaError p es) \<and> es \<noteq> [])
     \<and> (requireActionYml (validation config)
          \<and> p = path_resolve N (nullish (vo_cwd options) (process_cwd w)) ''action.yml''
          \<and> existsSync N (fs w) p
          \<and> readFileSync N (fs w) p = Inr content
          \<and> parseYaml N content = Inr parsed
          \<and> truthy parsed \<and> typeof_object parsed \<longrightarrow>
          (\<exists>r. validate N w config options = Inr r
             \<and> \<not> valid r
             \<and> warnings r = []
             \<and> (\<exists>e \<in> set (errors r). code e = ''ACTION_YML_SCHEMA_ERROR'')))"
proof -
  from assms decode_ActionYml_using [of parsed] obtain issue
    where d: "decode ActionYml parsed = Inl issue"
    by (cases "decode ActionYml parsed") auto
  then have vs: "validateSchema N parsed p =
      Inl (ActionYmlSchemaError p [\<lparr> se_path = p, se_message = formatErrorSync N issue \<rparr>])"
    by (simp add: validateSchema_def formatSchemaErrors_def)
  show ?thesis
  proof (intro conjI impI)
    from vs show "\<exists>es. validateSchema N parsed p = Inl (ActionYmlSchemaError p es) \<and> es \<noteq> []"
      by simp
  next
    assume a: "requireActionYml (validation config)
          \<and> p = path_resolve N (nullish (vo_cwd options) (process_cwd w)) ''action.yml''
          \<and> existsSync N (fs w) p
          \<and> readFileSync N (fs w) p = Inr content
          \<and> parseYaml N content = Inr parsed
          \<and> truthy parsed \<and> typeof_object parsed"
    let ?cwd = "nullish (vo_cwd options) (process_cwd w)"
    from a have "readActionYml N (fs w) p = Inr parsed"
      by (auto simp add: readActionYml_def)
    with vs have "validateActionYml N (fs w) p =
      Inl (ActionYmlSchemaError p [\<lparr> se_path = p, se_message = formatErrorSync N issue \<rparr>])"
      by (simp add: validateActionYml_def)
    with a have "checkActionYml N (fs w) config ?cwd =
      ([\<lparr> code = ''ACTION_YML_SCHEMA_ERROR'', message = formatErrorSync N issue,
           file_path = Some p, suggestion = None \<rparr>], [])"
      by (simp add: checkActionYml_def Let_def)
    then show "\<exists>r. validate N w config options = Inr r
             \<and> \<not> valid r
             \<and> warnings r = []
             \<and> (\<exists>e \<in> set (errors r). code e = ''ACTION_YML_SCHEMA_ERROR'')"
      by (simp add: validate_def Let_def)
  qed
qed

theorem runs_using_must_be_node24_witness:
  "validate toy (toy_world [(''/w/src/main.ts'', ''a''), (''/w/action.yml'', ''node20'')] Map.empty)
     default_config \<lparr> vo_cwd = None, vo_strict = None \<rparr>
   = Inr \<lparr> valid = False,
           errors = [\<lparr> code = ''ACTION_YML_SCHEMA_ERROR'', message = ''schema mismatch'',
                        file_path = Some ''/w/action.yml'', suggestion = None \<rparr>],
           warnings = [] \<rparr>"
proof -
  have h: "Option.bind (get_prop manifest_node20 ''runs'') (\<lambda>r. get_prop r ''using'')
             \<noteq> Some (JStr ''node24'')"
    by (simp add: manifest_node20_def)
  from runs_using_must_be_node24 [OF h, where N = toy
          and p = "''/w/action.yml''" and config = default_config
          and options = "\<lparr> vo_cwd = None, vo_strict = None \<rparr>"
          and w = "toy_world [(''/w/src/main.ts'', ''a''), (''/w/action.yml'', ''node20'')] Map.empty"
          and content = "''node20''"]
  show ?thesis
    by (simp add: validate_defs toy_defs manifest_defs)
qed

text \<open>
  C5, as the code has it. Schema validation fails exactly when the tree has at
  least one field-level violation, and the \<open>errors\<close> list of the
  \<open>ActionYmlSchemaError\<close> then has exactly one entry, however many violations
  there are: its path is the path of the manifest file and its message is the
  formatted issue on which decoding stopped.
\<close>

theorem schema_error_single_entry:
  fixes N :: "'fs platform"
  shows "((\<exists>e. validateSchema N parsed p = Inl e) \<longleftrightarrow> field_violations ActionYml parsed \<noteq> [])
     \<and> (\<forall>e. validateSchema N parsed p = Inl e \<longrightarrow>
          (\<exists>issue. decode ActionYml parsed = Inl issue
             \<and> e = ActionYmlSchemaError p
                     [\<lparr> se_path = p, se_message = formatErrorSync N issue \<rparr>]))"
  using decode_fails_iff(1) [of ActionYml parsed]
  by (cases "decode ActionYml parsed") (auto simp add: validateSchema_def formatSchemaErrors_def)

theorem schema_error_single_entry_witness:
  "validateSchema toy manifest_node20 ''/w/action.yml'' =
     Inl (ActionYmlSchemaError ''/w/action.yml''
            [\<lparr> se_path = ''/w/action.yml'', se_message = ''schema mismatch'' \<rparr>])
   \<and> field_violations ActionYml manifest_node20 = [[''runs'', ''using'']]"
  using schema_error_single_entry [where N = toy and parsed = manifest_node20
          and p = "''/w/action.yml''"]
  by (simp add: validateSchema_def formatSchemaErrors_def toy_def manifest_defs)

text \<open>
  C5, as stated, fails on the empty manifest: it violates the schema in three
  places (\<open>name\<close>, \<open>description\<close> and \<open>runs\<close> are missing), and the list of
  schema errors has one entry.
\<close>

theorem schema_errors_not_per_violation:
  "validateSchema toy (JObj []) ''/w/action.yml'' =
     Inl (ActionYmlSchemaError ''/w/action.yml''
            [\<lparr> se_path = ''/w/action.yml'', se_message = ''schema mismatch'' \<rparr>])
   \<and> field_violations ActionYml (JObj []) = [[''name''], [''description''], [''runs'']]
   \<and> length [\<lparr> se_path = ''/w/action.yml'', se_message = ''schema mismatch'' \<rparr>]
       \<noteq> length (field_violations ActionYml (JObj []))"
  by (simp add: validateSchema_def formatSchemaErrors_def toy_def manifest_defs)

section \<open>The build orchestrator: results\<close>

lemma and_then_failure:
  "and_then r k = (Some e, f') \<Longrightarrow> r = (Some e, f') \<or> (\<exists>f. r = (None, f) \<and> k f = (Some e, f'))"
  by (cases r) (auto simp add: and_then_def split: option.splits)

lemma writeFile_failure_path:
  "writeFile N f p content = (Some e, f') \<Longrightarrow> \<exists>c. e = WriteError p c"
  by (auto simp add: writeFile_def Let_def split: prod.splits option.splits)

lemma writeFile_failure:
  "writeFile N f p content = (Some e, f') \<Longrightarrow> \<exists>q c. e = WriteError q c"
  by (drule writeFile_failure_path) blast

lemma write_assets_failure:
  "write_assets N f dir as = (Some e, f') \<Longrightarrow> \<exists>q c. e = WriteError q c"
proof (induction as arbitrary: f)
  case Nil
  then show ?case by simp
next
  case (Cons a as)
  obtain name content where a: "a = (name, content)" by (cases a)
  from Cons.prems a
  have "and_then (writeFile N f (path_resolve N dir name) content)
          (\<lambda>f1. write_assets N f1 dir as) = (Some e, f')"
    by (simp add: Let_def)
  from and_then_failure [OF this] show ?case
  proof (elim disjE exE conjE)
    assume "writeFile N f (path_resolve N dir name) content = (Some e, f')"
    then show ?thesis by (rule writeFile_failure)
  next
    fix f1 assume "write_assets N f1 dir as = (Some e, f')"
    then show ?thesis by (rule Cons.IH)
  qed
qed

lemma write_outputs_failure:
  assumes "write_outputs N f config outputPath nccResult = (Some e, f')"
  shows "\<exists>q c. e = WriteError q c"
proof -
  note step1 = and_then_failure [OF assms [unfolded write_outputs_def]]
  show ?thesis
  proof (cases "writeFile N f outputPath (ncc_code nccResult) = (Some e, f')")
    case True
    then show ?thesis by (rule writeFile_failure)
  next
    case False
    with step1 obtain f1 where
      s2: "and_then (if sourceMap (build_options config) \<and> truthy_string (map_src nccResult) \<noteq> None
               then writeFile N f1 (outputPath @ ''.map'') (nullish (map_src nccResult) [])
               else (None, f1)) (\<lambda>f2.
       case assets nccResult of
         Some as \<Rightarrow> write_assets N f2 (path_resolve N outputPath ''..'') as
       | None \<Rightarrow> (None, f2)) = (Some e, f')"
      by blast
    from and_then_failure [OF s2] show ?thesis
    proof (elim disjE exE conjE)
      assume "(if sourceMap (build_options config) \<and> truthy_string (map_src nccResult) \<noteq> None
               then writeFile N f1 (outputPath @ ''.map'') (nullish (map_src nccResult) [])
               else (None, f1)) = (Some e, f')"
      then have "writeFile N f1 (outputPath @ ''.map'') (nullish (map_src nccResult) []) = (Some e, f')"
        by (simp split: if_splits)
      then show ?thesis by (rule writeFile_failure)
    next
      fix f2
      assume "(case assets nccResult of
         Some as \<Rightarrow> write_assets N f2 (path_resolve N outputPath ''..'') as
       | None \<Rightarrow> (None, f2)) = (Some e, f')"
      then obtain as where "write_assets N f2 (path_resolve N outputPath ''..'') as = (Some e, f')"
        by (cases "assets nccResult") simp_all
      then show ?thesis by (rule write_assets_failure)
    qed
  qed
qed

lemma bundleEntry_unfold:
  "bundleEntry N w e config cwd =
    (let w2 = w\<lparr> clock_reads := Suc (clock_reads w), ncc_calls := ncc_calls w @ [entry_path e] \<rparr>
     in case ncc_bundle N (fs w) (entry_path e)
                \<lparr> ncc_minify = Some (minify (build_options config)),
                  ncc_sourceMap = Some (sourceMap (build_options config)),
                  ncc_target = Some (target_name (target (build_options config))),
                  ncc_quiet = Some (quiet (build_options config)),
                  ncc_externals = Some (externals (build_options config)) \<rparr> of
          Inl err \<Rightarrow> (Inl (BundleFailed (entry_path e) (cause_string err)), w2)
        | Inr nccResult \<Rightarrow>
            (case write_outputs N (fs w) config (path_resolve N cwd (entry_output e)) nccResult of
               (Some er, f3) \<Rightarrow> (Inl er, w2\<lparr> fs := f3 \<rparr>)
             | (None, f3) \<Rightarrow>
                 (Inr \<lparr> success = True,
                        stats = Some \<lparr> stats_entry = type_name (entry_type e),
                                       stats_size = byteLength N (ncc_code nccResult),
                                       stats_duration = date_now N (Suc (clock_reads w))
                                                        - date_now N (clock_reads w),
                                       stats_outputPath = entry_output e \<rparr>,
                        bundle_error = None \<rparr>,
                  w2\<lparr> fs := f3, clock_reads := Suc (Suc (clock_reads w)) \<rparr>)))"
  by (simp add: bundleEntry_def Date_now_def Let_def split: sum.splits prod.splits option.splits)


lemma bundleEntry_outcome:
  assumes "bundleEntry N w e config cwd = (res, w')"
  shows "ncc_calls w' = ncc_calls w @ [entry_path e]
     \<and> entry_outcome N w config cwd e
          (case res of
             Inl left \<Rightarrow> \<lparr> success = False, stats = None, bundle_error = cause_of left \<rparr>
           | Inr right \<Rightarrow> right)"
proof -
  let ?b = "ncc_bundle N (fs w) (entry_path e)
                \<lparr> ncc_minify = Some (minify (build_options config)),
                  ncc_sourceMap = Some (sourceMap (build_options config)),
                  ncc_target = Some (target_name (target (build_options config))),
                  ncc_quiet = Some (quiet (build_options config)),
                  ncc_externals = Some (externals (build_options config)) \<rparr>"
  show ?thesis
  proof (cases ?b)
    case (Inl err)
    with assms have "res = Inl (BundleFailed (entry_path e) (cause_string err))"
      and "w' = w\<lparr> clock_reads := Suc (clock_reads w),
                   ncc_calls := ncc_calls w @ [entry_path e] \<rparr>"
      by (simp_all add: bundleEntry_unfold Let_def)
    with Inl show ?thesis by (simp add: entry_outcome_def)
  next
    case (Inr nccResult)
    let ?wr = "write_outputs N (fs w) config (path_resolve N cwd (entry_output e)) nccResult"
    obtain r f3 where wr: "?wr = (r, f3)" by (cases ?wr)
    show ?thesis
    proof (cases r)
      case None
      with assms Inr wr have "res = Inr \<lparr> success = True,
                        stats = Some \<lparr> stats_entry = type_name (entry_type e),
                                       stats_size = byteLength N (ncc_code nccResult),
                                       stats_duration = date_now N (Suc (clock_reads w))
                                                        - date_now N (clock_reads w),
                                       stats_outputPath = entry_output e \<rparr>,
                        bundle_error = None \<rparr>"
        and "ncc_calls w' = ncc_calls w @ [entry_path e]"
        by (auto simp add: bundleEntry_unfold Let_def)
      with Inr wr None show ?thesis by (simp add: entry_outcome_def)
    next
      case (Some err)
      with wr have wr': "?wr = (Some err, f3)" by simp
      from write_outputs_failure [OF this] obtain q c where q: "err = WriteError q c" by blast
      with assms Inr wr Some have "res = Inl (WriteError q c)"
        and "ncc_calls w' = ncc_calls w @ [entry_path e]"
        by (auto simp add: bundleEntry_unfold Let_def)
      with Inr wr' q show ?thesis by (simp add: entry_outcome_def)
    qed
  qed
qed

lemma results_follow_length:
  "results_follow N w config cwd es rs \<Longrightarrow> length rs = length es"
  by (induction es arbitrary: w rs) (auto split: list.splits)

lemma build_loop_spec:
  assumes "build_loop N w config cwd es acc = (rs, w')"
  shows "\<exists>new. rs = acc @ new
     \<and> results_follow N w config cwd es new
     \<and> ncc_calls w' = ncc_calls w @ map entry_path es"
  using assms
proof (induction es arbitrary: w acc)
  case Nil
  then show ?case by simp
next
  case (Cons e es)
  obtain res w1 where be: "bundleEntry N w e config cwd = (res, w1)"
    by (cases "bundleEntry N w e config cwd")
  note b = bundleEntry_outcome [OF be]
  let ?r = "case res of
              Inl left \<Rightarrow> \<lparr> success = False, stats = None, bundle_error = cause_of left \<rparr>
            | Inr right \<Rightarrow> right"
  from Cons.prems be have "build_loop N w1 config cwd es (acc @ [?r]) = (rs, w')"
    by (cases res) simp_all
  from Cons.IH [OF this] obtain new where
    n: "rs = (acc @ [?r]) @ new" "results_follow N w1 config cwd es new"
       "ncc_calls w' = ncc_calls w1 @ map entry_path es"
    by blast
  from n b be show ?case
    by (intro exI [of _ "?r # new"]) simp
qed

lemma build_unfold:
  "build N w config options =
     (let cwd = nullish (bo_cwd options) (process_cwd w);
          w0 = w\<lparr> clock_reads := Suc (clock_reads w) \<rparr>
      in case detectEntries N (fs w) cwd (Some (entriesConfig config)) of
           Inl e \<Rightarrow> (Inl e, w0)
         | Inr entriesResult \<Rightarrow>
             (case (if nullish (bo_clean options) True
                    then cleanDirectory N (fs w) (path_resolve N cwd ''dist'')
                    else (None, fs w)) of
                (Some e, f1) \<Rightarrow> (Inl e, w0\<lparr> fs := f1 \<rparr>)
              | (None, f1) \<Rightarrow>
                  (case build_loop N (w0\<lparr> fs := f1 \<rparr>) config cwd (de_entries entriesResult) [] of
                     (entryResults, w2) \<Rightarrow>
                       (case writeFile N (fs w2) (path_resolve N cwd ''dist/package.json'')
                               module_marker of
                          (Some e, f3) \<Rightarrow> (Inl e, w2\<lparr> fs := f3 \<rparr>)
                        | (None, f3) \<Rightarrow>
                            (Inr \<lparr> build_success = list_all success entryResults,
                                   build_entries = entryResults,
                                   build_duration = date_now N (clock_reads w2)
                                                    - date_now N (clock_reads w),
                                   build_error =
                                     (if list_all success entryResults then None
                                      else Some ''One or more entries failed to build'') \<rparr>,
                             w2\<lparr> fs := f3, clock_reads := Suc (clock_reads w2) \<rparr>)))))"
  by (simp add: build_def Date_now_def Let_def split: sum.splits prod.splits option.splits)

lemma cleanDirectory_failure:
  "cleanDirectory N f dir = (Some e, f') \<Longrightarrow> \<exists>c. e = CleanError dir c"
  by (auto simp add: cleanDirectory_def split: if_splits prod.splits option.splits)


lemmas build_defs = build_unfold bundleEntry_unfold write_outputs_def and_then_def
  writeFile_def cleanDirectory_def ncc_bundle_def module_marker_def
  detectEntries_def detectOptionalEntry_def push_if_def entriesConfig_def truthy_string_def
  default_config_def no_config_def config_defs

lemma toy_build_run:
  "build toy
     (toy_world [(''/w/src/main.ts'', ''a''), (''/w/src/pre.ts'', ''throw''),
                 (''/w/src/post.ts'', ''c''), (''/w/dist/old.js'', ''x'')] Map.empty)
     default_config \<lparr> bo_cwd = None, bo_clean = None \<rparr>
   = (Inr \<lparr> build_success = False,
            build_entries =
              [\<lparr> success = True,
                  stats = Some \<lparr> stats_entry = ''main'', stats_size = 1, stats_duration = 1,
                                 stats_outputPath = ''dist/main.js'' \<rparr>,
                  bundle_error = None \<rparr>,
               \<lparr> success = False, stats = None, bundle_error = Some ''Unexpected throw'' \<rparr>,
               \<lparr> success = False, stats = None, bundle_error = Some ''EACCES'' \<rparr>],
            build_duration = 5,
            build_error = Some ''One or more entries failed to build'' \<rparr>,
      \<lparr> fs = [(''/w/dist/package.json'', module_marker), (''/w/dist/main.js'', ''a''),
               (''/w/src/main.ts'', ''a''), (''/w/src/pre.ts'', ''throw''),
               (''/w/src/post.ts'', ''c'')],
        process_env = Map.empty, process_cwd = ''/w'', clock_reads = 6,
        ncc_calls = [''/w/src/main.ts'', ''/w/src/pre.ts'', ''/w/src/post.ts''] \<rparr>)"
  by (simp add: build_defs toy_defs)

text \<open>
  C8, as the code has it. Take a build whose entry detection succeeds with \<open>n\<close>
  entries and which is not stopped by a failure to clean the output directory.
  The bundler is called once for every detected entry, in detection order,
  whatever the earlier entries did. After the entries the build writes
  \<open>dist/package.json\<close>. If that write succeeds the build returns a
  \<open>BuildResult\<close>: its \<open>entries\<close> list has length \<open>n\<close>; its \<open>i\<close>-th element is the
  outcome of the \<open>i\<close>-th detected entry (a success with the statistics of the
  entry when the bundler resolved and the outputs were written, and otherwise a
  failure with \<open>success = false\<close> whose error is the cause of the bundler's
  rejection or of the failed write); and \<open>success\<close> is true exactly when every
  element has \<open>success = true\<close>. If that write fails the build fails with its
  \<open>WriteError\<close> and returns no \<open>BuildResult\<close>.
\<close>

theorem build_attempts_every_entry:
  fixes N :: "'fs platform" and w :: "'fs world" and options :: BuildRunnerOptions
    and config :: Config and d :: DetectEntriesResult
  defines "w1 \<equiv> w\<lparr> clock_reads := Suc (clock_reads w),
                     fs := (if nullish (bo_clean options) True
                            then snd (cleanDirectory N (fs w)
                                   (path_resolve N (nullish (bo_cwd options) (process_cwd w)) ''dist''))
                            else fs w) \<rparr>"
  defines "w2 \<equiv> snd (build_loop N w1 config (nullish (bo_cwd options) (process_cwd w))
                        (de_entries d) [])"
  defines "marker \<equiv> writeFile N (fs w2)
                      (path_resolve N (nullish (bo_cwd options) (process_cwd w)) ''dist/package.json'')
                      module_marker"
  assumes det: "detectEntries N (fs w) (nullish (bo_cwd options) (process_cwd w))
                  (Some (entriesConfig config)) = Inr d"
    and run: "build N w config options = (res, w')"
    and cleaned: "\<forall>dir c. res \<noteq> Inl (CleanError dir c)"
  shows "ncc_calls w' = ncc_calls w @ map entry_path (de_entries d)
     \<and> (\<forall>r. res = Inr r \<longrightarrow>
           length (build_entries r) = length (de_entries d)
           \<and> results_follow N w1 config (nullish (bo_cwd options) (process_cwd w))
                (de_entries d) (build_entries r)
           \<and> build_success r = list_all success (build_entries r))
     \<and> ((\<exists>r. res = Inr r) \<longleftrightarrow> fst marker = None)
     \<and> (\<forall>e. fst marker = Some e \<longrightarrow>
           res = Inl e
           \<and> (\<exists>c. e = WriteError
                 (path_resolve N (nullish (bo_cwd options) (process_cwd w)) ''dist/package.json'')
                 c))"
proof -
  let ?cwd = "nullish (bo_cwd options) (process_cwd w)"
  let ?w0 = "w\<lparr> clock_reads := Suc (clock_reads w) \<rparr>"
  let ?cl = "if nullish (bo_clean options) True
             then cleanDirectory N (fs w) (path_resolve N ?cwd ''dist'')
             else (None, fs w)"
  obtain ce f1 where cl: "?cl = (ce, f1)" by (cases ?cl)
  show ?thesis
  proof (cases ce)
    case (Some e)
    with cl have "cleanDirectory N (fs w) (path_resolve N ?cwd ''dist'') = (Some e, f1)"
      by (simp split: if_splits)
    from cleanDirectory_failure [OF this] obtain c
      where "e = CleanError (path_resolve N ?cwd ''dist'') c" by blast
    with run det cl Some have "res = Inl (CleanError (path_resolve N ?cwd ''dist'') c)"
      by (simp add: build_unfold Let_def)
    with cleaned show ?thesis by blast
  next
    case None
    from cl None have f1: "(if nullish (bo_clean options) True
                            then snd (cleanDirectory N (fs w) (path_resolve N ?cwd ''dist''))
                            else fs w) = f1"
      by (cases "nullish (bo_clean options) True") simp_all
    have w1: "w1 = ?w0\<lparr> fs := f1 \<rparr>"
      unfolding w1_def f1 by simp
    let ?loop = "build_loop N (?w0\<lparr> fs := f1 \<rparr>) config ?cwd (de_entries d) []"
    obtain rs wl where lp: "?loop = (rs, wl)" by (cases ?loop)
    have w2: "w2 = wl" unfolding w2_def w1 using lp by simp
    from build_loop_spec [OF lp]
    have ok: "results_follow N (?w0\<lparr> fs := f1 \<rparr>) config ?cwd (de_entries d) rs"
      and calls: "ncc_calls wl = ncc_calls w @ map entry_path (de_entries d)"
      by simp_all
    let ?mk = "writeFile N (fs wl) (path_resolve N ?cwd ''dist/package.json'') module_marker"
    obtain me f3 where mk: "?mk = (me, f3)" by (cases ?mk)
    have marker: "marker = (me, f3)" unfolding marker_def w2 using mk by simp
    show ?thesis
    proof (cases me)
      case (Some e)
      with mk have "?mk = (Some e, f3)" by simp
      from writeFile_failure_path [OF this] obtain c
        where e: "e = WriteError (path_resolve N ?cwd ''dist/package.json'') c" by blast
      from run det cl None lp mk Some
      have "res = Inl e" and "w' = wl\<lparr> fs := f3 \<rparr>"
        by (simp_all add: build_unfold Let_def)
      with e calls marker Some show ?thesis by simp
    next
      case mNone: None
      from run det cl None lp mk mNone
      have "res = Inr \<lparr> build_success = list_all success rs, build_entries = rs,
                          build_duration = date_now N (clock_reads wl) - date_now N (clock_reads w),
                          build_error = (if list_all success rs then None
                                         else Some ''One or more entries failed to build'') \<rparr>"
        and "w' = wl\<lparr> fs := f3, clock_reads := Suc (clock_reads wl) \<rparr>"
        by (auto simp add: build_unfold Let_def)
      with ok calls marker mNone w1 results_follow_length [OF ok] show ?thesis
        by simp
    qed
  qed
qed

theorem build_attempts_every_entry_witness:
  "build_entries (projr (fst (build toy
       (toy_world [(''/w/src/main.ts'', ''a''), (''/w/src/pre.ts'', ''throw''),
                   (''/w/src/post.ts'', ''c''), (''/w/dist/old.js'', ''x'')] Map.empty)
       default_config \<lparr> bo_cwd = None, bo_clean = None \<rparr>)))
     = [\<lparr> success = True,
          stats = Some \<lparr> stats_entry = ''main'', stats_size = 1, stats_duration = 1,
                         stats_outputPath = ''dist/main.js'' \<rparr>,
          bundle_error = None \<rparr>,
        \<lparr> success = False, stats = None, bundle_error = Some ''Unexpected throw'' \<rparr>,
        \<lparr> success = False, stats = None, bundle_error = Some ''EACCES'' \<rparr>]
   \<and> ncc_calls (snd (build toy
       (toy_world [(''/w/src/main.ts'', ''a''), (''/w/src/pre.ts'', ''throw''),
                   (''/w/src/post.ts'', ''c''), (''/w/dist/old.js'', ''x'')] Map.empty)
       default_config \<lparr> bo_cwd = None, bo_clean = None \<rparr>))
     = map entry_path
         [\<lparr> entry_type = Main, entry_path = ''/w/src/main.ts'', entry_output = ''dist/main.js'' \<rparr>,
          \<lparr> entry_type = Pre, entry_path = ''/w/src/pre.ts'', entry_output = ''dist/pre.js'' \<rparr>,
          \<lparr> entry_type = Post, entry_path = ''/w/src/post.ts'', entry_output = ''dist/post.js'' \<rparr>]"
proof -
  let ?w = "toy_world [(''/w/src/main.ts'', ''a''), (''/w/src/pre.ts'', ''throw''),
                       (''/w/src/post.ts'', ''c''), (''/w/dist/old.js'', ''x'')] Map.empty"
  let ?o = "\<lparr> bo_cwd = None, bo_clean = None \<rparr>"
  let ?d = "\<lparr> de_success = True, de_entries =
         [\<lparr> entry_type = Main, entry_path = ''/w/src/main.ts'', entry_output = ''dist/main.js'' \<rparr>,
          \<lparr> entry_type = Pre, entry_path = ''/w/src/pre.ts'', entry_output = ''dist/pre.js'' \<rparr>,
          \<lparr> entry_type = Post, entry_path = ''/w/src/post.ts'', entry_output = ''dist/post.js'' \<rparr>] \<rparr>"
  have det: "detectEntries toy (fs ?w) (nullish (bo_cwd ?o) (process_cwd ?w))
               (Some (entriesConfig default_config)) = Inr ?d"
    by (simp add: build_defs toy_defs)
  have cleaned: "\<forall>dir c. fst (build toy ?w default_config ?o) \<noteq> Inl (CleanError dir c)"
    by (simp add: toy_build_run)
  have run: "build toy ?w default_config ?o
             = (fst (build toy ?w default_config ?o), snd (build toy ?w default_config ?o))"
    by simp
  from build_attempts_every_entry [OF det run cleaned] show ?thesis
    by (simp add: toy_build_run)
qed

text \<open>
  C8, as stated, fails on a project in a read-only tree: the one detected entry
  is bundled and the write of its output fails, and then the write of
  \<open>dist/package.json\<close> fails too, so that the build ends with a \<open>WriteError\<close> and
  returns no \<open>BuildResult\<close> at all.
\<close>

theorem build_without_result_on_marker_failure:
  "build toy (toy_world [(''/ro/src/main.ts'', ''a'')] Map.empty) default_config
     \<lparr> bo_cwd = Some ''/ro'', bo_clean = None \<rparr>
   = (Inl (WriteError ''/ro/dist/package.json'' ''EACCES''),
      \<lparr> fs = [(''/ro/src/main.ts'', ''a'')], process_env = Map.empty, process_cwd = ''/w'',
        clock_reads = 2, ncc_calls = [''/ro/src/main.ts''] \<rparr>)"
  by (simp add: build_defs toy_defs Let_def)

text \<open>
  C10. A build that fails with \<open>MainEntryMissing\<close> leaves the file system as it
  found it and has not called the bundler: the failure comes from entry
  detection alone, which runs before the output directory is cleaned and before
  anything is written. This is so whatever the \<open>clean\<close> option is. Conversely,
  when the primary entry file is missing the build ends with this failure.
\<close>

theorem build_main_entry_missing_leaves_files:
  fixes N :: "'fs platform" and w :: "'fs world" and options :: BuildRunnerOptions
  shows "(\<forall>p c w'. build N w config options = (Inl (MainEntryMissing p c), w') \<longrightarrow>
            fs w' = fs w \<and> ncc_calls w' = ncc_calls w
            \<and> \<not> existsSync N (fs w) (path_resolve N (nullish (bo_cwd options) (process_cwd w)) (main (entries config))))
     \<and> (\<not> existsSync N (fs w) (path_resolve N (nullish (bo_cwd options) (process_cwd w)) (main (entries config))) \<longrightarrow>
            fst (build N w config options) = Inl (MainEntryMissing (main (entries config))
                      (nullish (bo_cwd options) (process_cwd w)))
            \<and> fs (snd (build N w config options)) = fs w)"
proof (intro conjI allI impI)
  let ?cwd = "nullish (bo_cwd options) (process_cwd w)"
  assume "\<not> existsSync N (fs w) (path_resolve N ?cwd (main (entries config)))"
  then have "build N w config options =
       (Inl (MainEntryMissing (main (entries config)) ?cwd),
        w\<lparr> clock_reads := Suc (clock_reads w) \<rparr>)"
    by (simp add: build_unfold Let_def detectEntries_def entriesConfig_def nullish_def)
  then show "fst (build N w config options) = Inl (MainEntryMissing (main (entries config)) ?cwd)"
    and "fs (snd (build N w config options)) = fs w"
    by simp_all
next
  let ?cwd = "nullish (bo_cwd options) (process_cwd w)"
  fix p c w'
  assume run: "build N w config options = (Inl (MainEntryMissing p c), w')"
  let ?w0 = "w\<lparr> clock_reads := Suc (clock_reads w) \<rparr>"
  let ?det = "detectEntries N (fs w) ?cwd (Some (entriesConfig config))"
  have "\<exists>e. ?det = Inl e"
  proof (rule ccontr)
    assume "\<not> (\<exists>e. ?det = Inl e)"
    then obtain d where det: "?det = Inr d" by (cases ?det) auto
    let ?cl = "if nullish (bo_clean options) True
               then cleanDirectory N (fs w) (path_resolve N ?cwd ''dist'')
               else (None, fs w)"
    obtain ce f1 where cl: "?cl = (ce, f1)" by (cases ?cl)
    show False
    proof (cases ce)
      case (Some e)
      with cl have "cleanDirectory N (fs w) (path_resolve N ?cwd ''dist'') = (Some e, f1)"
        by (simp split: if_splits)
      from cleanDirectory_failure [OF this] obtain c'
        where "e = CleanError (path_resolve N ?cwd ''dist'') c'" by blast
      with run det cl Some show False
        by (simp add: build_unfold Let_def)
    next
      case None
      let ?loop = "build_loop N (?w0\<lparr> fs := f1 \<rparr>) config ?cwd (de_entries d) []"
      obtain rs w2 where lp: "?loop = (rs, w2)" by (cases ?loop)
      let ?mk = "writeFile N (fs w2) (path_resolve N ?cwd ''dist/package.json'') module_marker"
      obtain me f3 where mk: "?mk = (me, f3)" by (cases ?mk)
      show False
      proof (cases me)
        case (Some e)
        with mk have "?mk = (Some e, f3)" by simp
        from writeFile_failure_path [OF this] obtain c'
          where "e = WriteError (path_resolve N ?cwd ''dist/package.json'') c'" by blast
        with run det cl None lp mk Some show False
          by (simp add: build_unfold Let_def)
      next
        case mNone: None
        with run det cl None lp mk show False
          by (simp add: build_unfold Let_def)
      qed
    qed
  qed
  then obtain e where det: "?det = Inl e" by blast
  with run have w': "w' = ?w0" and e: "e = MainEntryMissing p c"
    by (simp_all add: build_unfold Let_def)
  from det have "\<not> existsSync N (fs w) (path_resolve N ?cwd (main (entries config)))"
    by (auto simp add: detectEntries_def entriesConfig_def nullish_def Let_def split: if_splits)
  with w' show "fs w' = fs w" and "ncc_calls w' = ncc_calls w"
    and "\<not> existsSync N (fs w) (path_resolve N ?cwd (main (entries config)))"
    by simp_all
qed

theorem build_main_entry_missing_leaves_files_witness:
  "build toy (toy_world [(''/w/dist/old.js'', ''x'')] Map.empty) default_config
     \<lparr> bo_cwd = None, bo_clean = Some True \<rparr>
   = (Inl (MainEntryMissing ''src/main.ts'' ''/w''),
      \<lparr> fs = [(''/w/dist/old.js'', ''x'')], process_env = Map.empty, process_cwd = ''/w'',
        clock_reads = 1, ncc_calls = [] \<rparr>)"
  using build_main_entry_missing_leaves_files [where N = toy
          and w = "toy_world [(''/w/dist/old.js'', ''x'')] Map.empty"
          and config = default_config
          and options = "\<lparr> bo_cwd = None, bo_clean = Some True \<rparr>"]
  by (simp add: build_defs toy_defs Let_def)

end
